theory Spec2Isabelle
  imports Main
begin

section \<open>Token codec (backend/src/utils/jwt.js)\<close>

text \<open>
  The codec signs and verifies two kinds of bearer tokens through the
  \<^verbatim>\<open>jsonwebtoken\<close> package. The package is third-party code; it is modelled
  symbolically, as the protocol theories of the distribution model encryption: a
  well-formed token is its decoded body together with the secret that produced its
  HMAC signature, so two token strings are equal exactly when body and signing secret
  are, and a signature verifies exactly under the secret that made it. Clock readings
  are seconds since the epoch (\<^verbatim>\<open>Math.floor(Date.now() / 1000)\<close>) and are passed to
  every operation that reads the clock.
\<close>

type_synonym object_id = nat

text \<open>
  The two payloads built by \<^verbatim>\<open>AuthService.generateTokens\<close>:
  \<^verbatim>\<open>{ userId, username, email, role }\<close> for the access token and
  \<^verbatim>\<open>{ userId }\<close> for the refresh token.
\<close>

datatype payload =
    AccessPayload object_id string string string
  | RefreshPayload object_id

fun userId :: "payload \<Rightarrow> object_id" where
  "userId (AccessPayload i _ _ _) = i"
| "userId (RefreshPayload i) = i"

text \<open>The decoded token: the payload and the registered claims added at signing time.\<close>

record jwt_body =
  claims :: payload
  iat :: nat
  exp :: nat
  nbf :: "nat option"
  iss :: string
  aud :: string

text \<open>
  A presented string is a signed token, a three-part string whose payload does not
  parse as JSON (\<open>Undecodable\<close>), or any other string (\<open>Malformed\<close>, the empty
  string among them).
\<close>

datatype token =
    Jwt jwt_body string
  | Undecodable string
  | Malformed string

datatype jwt_error = TokenExpiredError | JsonWebTokenError | NotBeforeError | SyntaxError

text \<open>
  \<^verbatim>\<open>jwt.sign(payload, secret, { expiresIn, issuer, audience })\<close>: the issue time is the
  clock reading, the expiry is the issue time plus the time span (in seconds).
\<close>

definition jwt_sign :: "payload \<Rightarrow> string \<Rightarrow> nat \<Rightarrow> string \<Rightarrow> string \<Rightarrow> nat \<Rightarrow> token" where
  "jwt_sign pl secret expiresIn issuer audience now =
     Jwt \<lparr>claims = pl, iat = now, exp = now + expiresIn, nbf = None,
          iss = issuer, aud = audience\<rparr> secret"

text \<open>
  \<^verbatim>\<open>jwt.verify(token, secret, { issuer, audience })\<close>, in the order of the package's
  checks: format, decoding, signature, not-before, expiry
  (\<^verbatim>\<open>clockTimestamp >= payload.exp\<close>), audience, issuer. A payload that does not parse
  makes the decoding throw a \<^verbatim>\<open>SyntaxError\<close>, which is none of the package's own
  error classes.
\<close>

definition jwt_verify :: "token \<Rightarrow> string \<Rightarrow> string \<Rightarrow> string \<Rightarrow> nat \<Rightarrow> jwt_error + jwt_body" where
  "jwt_verify tok secret issuer audience now =
     (case tok of
        Malformed _ \<Rightarrow> Inl JsonWebTokenError
      | Undecodable _ \<Rightarrow> Inl SyntaxError
      | Jwt b k \<Rightarrow>
          if k \<noteq> secret then Inl JsonWebTokenError
          else if (case nbf b of None \<Rightarrow> False | Some n \<Rightarrow> now < n) then Inl NotBeforeError
          else if exp b \<le> now then Inl TokenExpiredError
          else if aud b \<noteq> audience then Inl JsonWebTokenError
          else if iss b \<noteq> issuer then Inl JsonWebTokenError
          else Inr b)"

text \<open>
  The error classes of \<^verbatim>\<open>utils/errors\<close> as the services use them: a kind and a
  message.
\<close>

datatype error =
    AuthenticationError string
  | ConflictError string
  | NotFoundError string

text \<open>
  The process environment read by the codec. Both secrets are taken to be set
  (the package refuses to sign with an empty one). An expiry is \<open>None\<close> when the
  variable is unset, and otherwise the configured time span in seconds.
\<close>

record env =
  JWT_SECRET :: string
  JWT_EXPIRE :: "nat option"
  JWT_REFRESH_SECRET :: string
  JWT_REFRESH_EXPIRE :: "nat option"

text \<open>\<^verbatim>\<open>process.env.JWT_EXPIRE || '7d'\<close> and \<^verbatim>\<open>process.env.JWT_REFRESH_EXPIRE || '30d'\<close>.\<close>

definition access_expiresIn :: "env \<Rightarrow> nat" where
  "access_expiresIn e = (case JWT_EXPIRE e of None \<Rightarrow> 7 * 86400 | Some d \<Rightarrow> d)"

definition refresh_expiresIn :: "env \<Rightarrow> nat" where
  "refresh_expiresIn e = (case JWT_REFRESH_EXPIRE e of None \<Rightarrow> 30 * 86400 | Some d \<Rightarrow> d)"

definition generateAccessToken :: "env \<Rightarrow> nat \<Rightarrow> payload \<Rightarrow> token" where
  "generateAccessToken e now pl =
     jwt_sign pl (JWT_SECRET e) (access_expiresIn e) ''blog-platform'' ''blog-platform-users'' now"

definition generateRefreshToken :: "env \<Rightarrow> nat \<Rightarrow> payload \<Rightarrow> token" where
  "generateRefreshToken e now pl =
     jwt_sign pl (JWT_REFRESH_SECRET e) (refresh_expiresIn e) ''blog-platform'' ''blog-platform-users'' now"

definition verifyAccessToken :: "env \<Rightarrow> nat \<Rightarrow> token \<Rightarrow> error + jwt_body" where
  "verifyAccessToken e now tok =
     (case jwt_verify tok (JWT_SECRET e) ''blog-platform'' ''blog-platform-users'' now of
        Inr decoded \<Rightarrow> Inr decoded
      | Inl TokenExpiredError \<Rightarrow> Inl (AuthenticationError ''Access token has expired'')
      | Inl JsonWebTokenError \<Rightarrow> Inl (AuthenticationError ''Invalid access token'')
      | Inl _ \<Rightarrow> Inl (AuthenticationError ''Token verification failed''))"

definition verifyRefreshToken :: "env \<Rightarrow> nat \<Rightarrow> token \<Rightarrow> error + jwt_body" where
  "verifyRefreshToken e now tok =
     (case jwt_verify tok (JWT_REFRESH_SECRET e) ''blog-platform'' ''blog-platform-users'' now of
        Inr decoded \<Rightarrow> Inr decoded
      | Inl TokenExpiredError \<Rightarrow> Inl (AuthenticationError ''Refresh token has expired'')
      | Inl JsonWebTokenError \<Rightarrow> Inl (AuthenticationError ''Invalid refresh token'')
      | Inl _ \<Rightarrow> Inl (AuthenticationError ''Refresh token verification failed''))"

section \<open>Credential store (models/User)\<close>

text \<open>
  The stored password. The pre-save hook of the user schema (quoted in features.md)
  replaces a modified password by its bcrypt hash, and \<^verbatim>\<open>comparePassword\<close> compares a candidate with
  the stored hash. The hash is symbolic: \<open>Hashed p\<close> is a bcrypt hash of \<open>p\<close>
  (the salt is left out), and \<open>Plain s\<close> is a string that was stored without
  passing through the hook, which no candidate matches.
\<close>

datatype stored_password = Hashed string | Plain string

text \<open>An element of \<^verbatim>\<open>user.refreshTokens\<close>; the service reads its \<^verbatim>\<open>token\<close>.\<close>

record refresh_entry =
  token :: token

text \<open>
  Modelled from the spec: the user document, whose schema (models/User.js) is
  missing from the sources. The fields are the ones the spec's data model names and
  the ones the services read or write; \<open>u_id\<close> is the document's \<^verbatim>\<open>_id\<close>.
\<close>

record user =
  u_id :: object_id
  username :: string
  email :: string
  password :: stored_password
  firstName :: string
  lastName :: string
  role :: string
  avatar :: "string option"
  bio :: "string option"
  isActive :: bool
  emailVerified :: bool
  lastLogin :: "nat option"
  refreshTokens :: "refresh_entry list"

text \<open>
  The users collection. \<^verbatim>\<open>findOne\<close> yields the first document of the list it is
  given that matches, \<^verbatim>\<open>findById\<close> the first with the given \<^verbatim>\<open>_id\<close>. The
  lookups by \<^verbatim>\<open>_id\<close> and by email are lookups on unique keys; the one lookup that
  can match several documents, that of \<^verbatim>\<open>register\<close>, is given the list in the
  order the database presents it.
\<close>

type_synonym db = "user list"

definition findOne :: "(user \<Rightarrow> bool) \<Rightarrow> db \<Rightarrow> user option" where
  "findOne P d = find P d"

definition findById :: "object_id \<Rightarrow> db \<Rightarrow> user option" where
  "findById i d = findOne (\<lambda>u. u_id u = i) d"

text \<open>\<^verbatim>\<open>user.save()\<close>: the stored document with the user's \<^verbatim>\<open>_id\<close> is replaced.\<close>

fun save :: "user \<Rightarrow> db \<Rightarrow> db" where
  "save u [] = []"
| "save u (d # ds) = (if u_id d = u_id u then u # ds else d # save u ds)"

text \<open>
  Modelled from the spec: the method \<^verbatim>\<open>comparePassword\<close> of the missing user
  model, the bcrypt comparison of a candidate with the stored hash.
\<close>

definition comparePassword :: "string \<Rightarrow> user \<Rightarrow> bool" where
  "comparePassword candidate u =
     (case password u of Hashed p \<Rightarrow> candidate = p | Plain _ \<Rightarrow> False)"

text \<open>
  Modelled from the spec: the method \<^verbatim>\<open>addRefreshToken\<close> of the missing user
  model. It appends the new refresh token to \<^verbatim>\<open>user.refreshTokens\<close> and persists
  the user; the collection is unbounded.
\<close>

definition addRefreshToken :: "token \<Rightarrow> user \<Rightarrow> db \<Rightarrow> user \<times> db" where
  "addRefreshToken tok u d =
     (let u' = u\<lparr>refreshTokens := refreshTokens u @ [\<lparr>token = tok\<rparr>]\<rparr> in (u', save u' d))"

text \<open>
  Modelled from the spec: the method \<^verbatim>\<open>removeRefreshToken\<close> of the missing user
  model. It removes the presented token from the user's collection, leaves every
  other entry in place, and persists the user.
\<close>

definition removeRefreshToken :: "token \<Rightarrow> user \<Rightarrow> db \<Rightarrow> user \<times> db" where
  "removeRefreshToken tok u d =
     (let u' = u\<lparr>refreshTokens := filter (\<lambda>rt. token rt \<noteq> tok) (refreshTokens u)\<rparr>
      in (u', save u' d))"

text \<open>
  Modelled from the spec: the method \<^verbatim>\<open>clearRefreshTokens\<close> of the missing user
  model. It empties the user's collection and persists the user.
\<close>

definition clearRefreshTokens :: "user \<Rightarrow> db \<Rightarrow> user \<times> db" where
  "clearRefreshTokens u d = (let u' = u\<lparr>refreshTokens := []\<rparr> in (u', save u' d))"

text \<open>
  Modelled from the spec: \<^verbatim>\<open>User.create\<close> with the defaults of the missing user
  schema. It stores a new document under a fresh \<^verbatim>\<open>_id\<close>, with the password
  hashed by the pre-save hook, active, and with no refresh token.
\<close>

definition fresh_id :: "db \<Rightarrow> object_id" where
  "fresh_id d = Suc (fold max (map u_id d) 0)"

definition create :: "string \<Rightarrow> string \<Rightarrow> string \<Rightarrow> string \<Rightarrow> string \<Rightarrow> string \<Rightarrow> db \<Rightarrow> user \<times> db" where
  "create un em pw fn ln rl d =
     (let u = \<lparr>u_id = fresh_id d, username = un, email = em, password = Hashed pw,
                firstName = fn, lastName = ln, role = rl, avatar = None, bio = None,
                isActive = True, emailVerified = False, lastLogin = None,
                refreshTokens = []\<rparr>
      in (u, d @ [u]))"

section \<open>Session manager (services/authService.js)\<close>

text \<open>
  Every operation takes the collection and returns its result, an error or a value,
  together with the collection as the operation leaves it. Operations that sign or
  verify a token also take the process environment and the clock reading.
\<close>

record user_view =
  v_id :: object_id
  v_username :: string
  v_email :: string
  v_firstName :: string
  v_lastName :: string
  v_role :: string
  v_avatar :: "string option"
  v_emailVerified :: bool

record token_pair =
  accessToken :: token
  newRefreshToken :: token

record auth_result =
  res_user :: user_view
  res_tokens :: token_pair

definition generateTokens :: "env \<Rightarrow> nat \<Rightarrow> user \<Rightarrow> db \<Rightarrow> auth_result \<times> db" where
  "generateTokens e now u d =
     (let pl = AccessPayload (u_id u) (username u) (email u) (role u);
          at = generateAccessToken e now pl;
          rt = generateRefreshToken e now (RefreshPayload (u_id u));
          (u', d') = addRefreshToken rt u d
      in (\<lparr>res_user = \<lparr>v_id = u_id u', v_username = username u', v_email = email u',
                         v_firstName = firstName u', v_lastName = lastName u',
                         v_role = role u', v_avatar = avatar u',
                         v_emailVerified = emailVerified u'\<rparr>,
           res_tokens = \<lparr>accessToken = at, newRefreshToken = rt\<rparr>\<rparr>, d'))"

text \<open>\<^verbatim>\<open>role || 'user'\<close>: an absent or empty role defaults to \<^verbatim>\<open>'user'\<close>.\<close>

definition role_or_user :: "string option \<Rightarrow> string" where
  "role_or_user r = (case r of None \<Rightarrow> ''user'' | Some s \<Rightarrow> if s = [] then ''user'' else s)"

text \<open>
  \<^verbatim>\<open>register\<close>. Its lookup \<^verbatim>\<open>User.findOne({ $or: [{ email }, { username }] })\<close> can
  match several documents, and the source does not fix which of them the database
  yields. The order in which the database presents the collection to this query is
  therefore a parameter, \<open>scan\<close>; the lookup yields the first match in that order.
\<close>

definition register ::
    "env \<Rightarrow> nat \<Rightarrow> (db \<Rightarrow> db) \<Rightarrow> string \<Rightarrow> string \<Rightarrow> string \<Rightarrow> string \<Rightarrow> string
      \<Rightarrow> string option \<Rightarrow> db \<Rightarrow> (error + auth_result) \<times> db" where
  "register e now scan un em pw fn ln rl d =
     (case findOne (\<lambda>u. email u = em \<or> username u = un) (scan d) of
        Some existingUser \<Rightarrow>
          if email existingUser = em
          then (Inl (ConflictError ''Email already registered''), d)
          else (Inl (ConflictError ''Username already taken''), d)
      | None \<Rightarrow>
          (let (u, d1) = create un em pw fn ln (role_or_user rl) d;
               (res, d2) = generateTokens e now u d1
           in (Inr res, d2)))"

definition login :: "env \<Rightarrow> nat \<Rightarrow> string \<Rightarrow> string \<Rightarrow> db \<Rightarrow> (error + auth_result) \<times> db" where
  "login e now em pw d =
     (case findOne (\<lambda>u. email u = em) d of
        None \<Rightarrow> (Inl (AuthenticationError ''Invalid email or password''), d)
      | Some u \<Rightarrow>
          if \<not> isActive u
          then (Inl (AuthenticationError ''Invalid email or password''), d)
          else if \<not> comparePassword pw u
          then (Inl (AuthenticationError ''Invalid email or password''), d)
          else
            (let u1 = u\<lparr>lastLogin := Some now\<rparr>;
                 d1 = save u1 d;
                 (res, d2) = generateTokens e now u1 d1
             in (Inr res, d2)))"

text \<open>\<^verbatim>\<open>user.refreshTokens.some(rt => rt.token === refreshToken)\<close>.\<close>

definition tokenExists :: "token \<Rightarrow> user \<Rightarrow> bool" where
  "tokenExists tok u = list_ex (\<lambda>rt. token rt = tok) (refreshTokens u)"

definition refreshToken :: "env \<Rightarrow> nat \<Rightarrow> token \<Rightarrow> db \<Rightarrow> (error + auth_result) \<times> db" where
  "refreshToken e now tok d =
     (case verifyRefreshToken e now tok of
        Inl err \<Rightarrow> (Inl err, d)
      | Inr decoded \<Rightarrow>
          (case findById (userId (claims decoded)) d of
             None \<Rightarrow> (Inl (AuthenticationError ''User not found or inactive''), d)
           | Some u \<Rightarrow>
               if \<not> isActive u
               then (Inl (AuthenticationError ''User not found or inactive''), d)
               else if \<not> tokenExists tok u
               then (let (u', d') = clearRefreshTokens u d
                     in (Inl (AuthenticationError ''Invalid refresh token''), d'))
               else (let (u', d') = removeRefreshToken tok u d;
                         (res, d'') = generateTokens e now u' d'
                     in (Inr res, d''))))"

text \<open>
  A presented token is optional: \<open>None\<close> is an omitted one. JavaScript also treats
  the empty string as absent in \<^verbatim>\<open>if (user && refreshToken)\<close>; \<open>presented\<close>
  yields the token when the condition holds for it.
\<close>

definition presented :: "token option \<Rightarrow> token option" where
  "presented t =
     (case t of None \<Rightarrow> None | Some tok \<Rightarrow> if tok = Malformed [] then None else Some tok)"

definition logout :: "object_id \<Rightarrow> token option \<Rightarrow> db \<Rightarrow> (error + unit) \<times> db" where
  "logout i t d =
     (case findById i d of
        None \<Rightarrow> (Inr (), d)
      | Some u \<Rightarrow>
          (case presented t of
             None \<Rightarrow> (Inr (), d)
           | Some tok \<Rightarrow> (let (u', d') = removeRefreshToken tok u d in (Inr (), d'))))"

definition logoutAll :: "object_id \<Rightarrow> db \<Rightarrow> (error + unit) \<times> db" where
  "logoutAll i d =
     (case findById i d of
        None \<Rightarrow> (Inr (), d)
      | Some u \<Rightarrow> (let (u', d') = clearRefreshTokens u d in (Inr (), d')))"

definition changePassword :: "object_id \<Rightarrow> string \<Rightarrow> string \<Rightarrow> db \<Rightarrow> (error + string) \<times> db" where
  "changePassword i currentPassword newPassword d =
     (case findById i d of
        None \<Rightarrow> (Inl (NotFoundError ''User not found''), d)
      | Some u \<Rightarrow>
          if \<not> comparePassword currentPassword u
          then (Inl (AuthenticationError ''Current password is incorrect''), d)
          else
            (let u1 = u\<lparr>password := Hashed newPassword\<rparr>;
                 d1 = save u1 d;
                 (u2, d2) = clearRefreshTokens u1 d1
             in (Inr ''Password changed successfully'', d2)))"

text \<open>
  \<^verbatim>\<open>updateProfile\<close>. The request body is a JavaScript object, here the list of
  its members. \<^verbatim>\<open>updates[key] = value\<close> is \<open>obj_set\<close>, and the
  \<^verbatim>\<open>forEach\<close> over \<^verbatim>\<open>Object.keys(updateData)\<close> is a fold over the keys.
\<close>

type_synonym js_object = "(string \<times> string) list"

fun obj_set :: "string \<Rightarrow> string \<Rightarrow> js_object \<Rightarrow> js_object" where
  "obj_set k v [] = [(k, v)]"
| "obj_set k v ((k', v') # r) = (if k' = k then (k, v) # r else (k', v') # obj_set k v r)"

definition allowedUpdates :: "string list" where
  "allowedUpdates = [''firstName'', ''lastName'', ''bio'', ''avatar'']"

text \<open>
  The body of the loop,
  \<^verbatim>\<open>if (allowedUpdates.includes(key)) updates[key] = updateData[key]\<close>, and the loop.
\<close>

definition copy_if_allowed :: "js_object \<Rightarrow> string \<Rightarrow> js_object \<Rightarrow> js_object" where
  "copy_if_allowed updateData key updates =
     (if key \<in> set allowedUpdates
      then (case map_of updateData key of
              Some v \<Rightarrow> obj_set key v updates
            | None \<Rightarrow> updates)
      else updates)"

definition filter_updates :: "js_object \<Rightarrow> js_object" where
  "filter_updates updateData = fold (copy_if_allowed updateData) (map fst updateData) []"

text \<open>
  Modelled from the spec: the paths of the missing user schema that
  \<^verbatim>\<open>User.findByIdAndUpdate\<close> can set, and the effect of setting one of them.
  Every string-valued and boolean path of the document can be set
  (a stored password is written as given, since the update does not run the pre-save
  hook; a boolean path takes the strings that cast to a boolean); a key that is no
  such path, or a value that does not cast, leaves the document as it is.
\<close>

definition cast_bool :: "string \<Rightarrow> bool option" where
  "cast_bool v =
     (if v \<in> set [''true'', ''1'', ''yes''] then Some True
      else if v \<in> set [''false'', ''0'', ''no''] then Some False
      else None)"

definition setPath :: "string \<Rightarrow> string \<Rightarrow> user \<Rightarrow> user" where
  "setPath k v u =
     (if k = ''username'' then u\<lparr>username := v\<rparr>
      else if k = ''email'' then u\<lparr>email := v\<rparr>
      else if k = ''password'' then u\<lparr>password := Plain v\<rparr>
      else if k = ''firstName'' then u\<lparr>firstName := v\<rparr>
      else if k = ''lastName'' then u\<lparr>lastName := v\<rparr>
      else if k = ''role'' then u\<lparr>role := v\<rparr>
      else if k = ''avatar'' then u\<lparr>avatar := Some v\<rparr>
      else if k = ''bio'' then u\<lparr>bio := Some v\<rparr>
      else if k = ''isActive''
        then (case cast_bool v of Some b \<Rightarrow> u\<lparr>isActive := b\<rparr> | None \<Rightarrow> u)
      else if k = ''emailVerified''
        then (case cast_bool v of Some b \<Rightarrow> u\<lparr>emailVerified := b\<rparr> | None \<Rightarrow> u)
      else u)"

definition findByIdAndUpdate :: "object_id \<Rightarrow> js_object \<Rightarrow> db \<Rightarrow> user option \<times> db" where
  "findByIdAndUpdate i updates d =
     (case findById i d of
        None \<Rightarrow> (None, d)
      | Some u \<Rightarrow> (let u' = fold (\<lambda>(k, v). setPath k v) updates u in (Some u', save u' d)))"

definition updateProfile :: "object_id \<Rightarrow> js_object \<Rightarrow> db \<Rightarrow> (error + user) \<times> db" where
  "updateProfile i updateData d =
     (let updates = filter_updates updateData;
          (r, d') = findByIdAndUpdate i updates d
      in (case r of
            None \<Rightarrow> (Inl (NotFoundError ''User not found''), d')
          | Some u \<Rightarrow> (Inr u, d')))"

section \<open>Transport binding (controllers/authController.js)\<close>

text \<open>
  The logout handler. The authenticated user's \<^verbatim>\<open>_id\<close> comes from the request,
  the refresh token from the cookie; the service is called only when the cookie is
  present. An error of the service would be handed on by \<^verbatim>\<open>asyncHandler\<close>.
\<close>

record response =
  status :: nat
  success :: bool
  message :: string

definition logout_controller :: "object_id \<Rightarrow> token option \<Rightarrow> db \<Rightarrow> (error + response) \<times> db" where
  "logout_controller i cookie d =
     (case presented cookie of
        None \<Rightarrow> (Inr \<lparr>status = 200, success = True, message = ''Logout successful''\<rparr>, d)
      | Some tok \<Rightarrow>
          (case logout i (Some tok) d of
             (Inl err, d') \<Rightarrow> (Inl err, d')
           | (Inr _, d') \<Rightarrow>
               (Inr \<lparr>status = 200, success = True, message = ''Logout successful''\<rparr>, d')))"

section \<open>Auxiliary definitions and a sample population\<close>

text \<open>
  The user document after a successful rotation at time \<open>t\<close>: the presented token
  is gone and the refresh token issued at \<open>t\<close> is appended.
\<close>

definition rotated :: "env \<Rightarrow> nat \<Rightarrow> token \<Rightarrow> user \<Rightarrow> user" where
  "rotated e t tok u =
     u\<lparr>refreshTokens := filter (\<lambda>rt. token rt \<noteq> tok) (refreshTokens u)
          @ [\<lparr>token = generateRefreshToken e t (RefreshPayload (u_id u))\<rparr>]\<rparr>"

text \<open>
  The part of a user document that a profile update must not touch: the document
  with the four profile fields blanked.
\<close>

definition protected :: "user \<Rightarrow> user" where
  "protected u = u\<lparr>firstName := [], lastName := [], avatar := None, bio := None\<rparr>"

text \<open>
  A configuration with distinct secrets and the default expiries, and three users:
  \<open>alice\<close> holds \<open>tokenA\<close>, the refresh token issued to her at time 1000
  (\<open>tokenOld\<close> and \<open>tokenB\<close> are the ones issued to her at times 500 and 2000;
  \<open>alice2\<close> is \<open>alice\<close> holding both \<open>tokenOld\<close> and \<open>tokenA\<close>),
  \<open>bob\<close> holds none, \<open>carol\<close> is inactive and holds \<open>tokenC\<close>, issued to her
  at time 900 (\<open>tokenC'\<close> is the one issued to her at time 950).
\<close>

definition env0 :: env where
  "env0 = \<lparr>JWT_SECRET = ''access-secret'', JWT_EXPIRE = None,
            JWT_REFRESH_SECRET = ''refresh-secret'', JWT_REFRESH_EXPIRE = None\<rparr>"

definition tokenA :: token where
  "tokenA = generateRefreshToken env0 1000 (RefreshPayload 1)"

definition tokenOld :: token where
  "tokenOld = generateRefreshToken env0 500 (RefreshPayload 1)"

definition tokenB :: token where
  "tokenB = generateRefreshToken env0 2000 (RefreshPayload 1)"

definition tokenC :: token where
  "tokenC = generateRefreshToken env0 900 (RefreshPayload 3)"

definition tokenC' :: token where
  "tokenC' = generateRefreshToken env0 950 (RefreshPayload 3)"

definition alice :: user where
  "alice = \<lparr>u_id = 1, username = ''alice'', email = ''alice@x.com'',
             password = Hashed ''Abc123!@#'', firstName = ''Alice'', lastName = ''Liddell'',
             role = ''user'', avatar = None, bio = None, isActive = True,
             emailVerified = False, lastLogin = None,
             refreshTokens = [\<lparr>token = tokenA\<rparr>]\<rparr>"

definition alice2 :: user where
  "alice2 = alice\<lparr>refreshTokens := [\<lparr>token = tokenOld\<rparr>, \<lparr>token = tokenA\<rparr>]\<rparr>"

definition bob :: user where
  "bob = \<lparr>u_id = 2, username = ''bob'', email = ''bob@x.com'',
           password = Hashed ''Bob456!@#'', firstName = ''Bob'', lastName = ''Builder'',
           role = ''user'', avatar = None, bio = None, isActive = True,
           emailVerified = False, lastLogin = None, refreshTokens = []\<rparr>"

definition carol :: user where
  "carol = \<lparr>u_id = 3, username = ''carol'', email = ''carol@x.com'',
             password = Hashed ''Car789!@#'', firstName = ''Carol'', lastName = ''Singer'',
             role = ''user'', avatar = None, bio = None, isActive = False,
             emailVerified = False, lastLogin = None,
             refreshTokens = [\<lparr>token = tokenC\<rparr>]\<rparr>"

section \<open>Facts about the store and the codec\<close>

lemma findById_Some_id: "findById i d = Some u \<Longrightarrow> u_id u = i"
  by (induction d) (auto simp: findById_def findOne_def split: if_splits)

lemma findById_save:
  "findById i (save u d) =
     (if i = u_id u then (case findById i d of None \<Rightarrow> None | Some _ \<Rightarrow> Some u)
      else findById i d)"
  by (induction d) (auto simp: findById_def findOne_def)

lemma findById_save_self:
  "findById i d = Some u \<Longrightarrow> u_id u' = u_id u \<Longrightarrow> findById (u_id u) (save u' d) = Some u'"
  using findById_Some_id [of i d u] by (simp add: findById_save)

lemma findById_save_found:
  "findById i d = Some u \<Longrightarrow> u_id u' = u_id u \<Longrightarrow> findById i (save u' d) = Some u'"
  using findById_save_self [of i d u u'] findById_Some_id [of i d u] by simp

lemma save_same: "findById (u_id u) d = Some u \<Longrightarrow> save u d = d"
  by (induction d) (auto simp: findById_def findOne_def split: if_splits)

lemma save_save: "u_id a = u_id b \<Longrightarrow> save a (save b d) = save a d"
  by (induction d) auto

lemma filter_absent:
  "\<not> list_ex (\<lambda>rt. token rt = tok) xs \<Longrightarrow> filter (\<lambda>rt. token rt \<noteq> tok) xs = xs"
  by (induction xs) auto

lemma verifyRefreshToken_Inr:
  "verifyRefreshToken e t tok = Inr b \<longleftrightarrow>
     tok = Jwt b (JWT_REFRESH_SECRET e) \<and> (case nbf b of None \<Rightarrow> True | Some n \<Rightarrow> n \<le> t)
       \<and> t < exp b \<and> aud b = ''blog-platform-users'' \<and> iss b = ''blog-platform''"
  by (auto simp: verifyRefreshToken_def jwt_verify_def
      split: token.splits sum.splits jwt_error.splits option.splits if_splits)

lemma verifyRefreshToken_time:
  "verifyRefreshToken e t tok = Inr b \<Longrightarrow> verifyRefreshToken e t' tok = Inr b' \<Longrightarrow> b' = b"
  by (simp add: verifyRefreshToken_Inr)

lemma verifyRefreshToken_generated:
  "t < now + refresh_expiresIn e \<Longrightarrow>
   verifyRefreshToken e t (generateRefreshToken e now pl) =
     Inr \<lparr>claims = pl, iat = now, exp = now + refresh_expiresIn e, nbf = None,
          iss = ''blog-platform'', aud = ''blog-platform-users''\<rparr>"
  by (simp add: verifyRefreshToken_def generateRefreshToken_def jwt_sign_def jwt_verify_def)

lemma verifyRefreshToken_expired:
  "now + refresh_expiresIn e \<le> t \<Longrightarrow>
   verifyRefreshToken e t (generateRefreshToken e now pl) =
     Inl (AuthenticationError ''Refresh token has expired'')"
  by (simp add: verifyRefreshToken_def generateRefreshToken_def jwt_sign_def jwt_verify_def)

lemma verifyRefreshToken_undecodable:
  "verifyRefreshToken e t (Undecodable s)
     = Inl (AuthenticationError ''Refresh token verification failed'')"
  by (simp add: verifyRefreshToken_def jwt_verify_def)

lemma generateRefreshToken_inject:
  "generateRefreshToken e t pl = generateRefreshToken e t' pl' \<longleftrightarrow> t = t' \<and> pl = pl'"
  by (auto simp: generateRefreshToken_def jwt_sign_def)

lemma refresh_expiresIn_env0: "refresh_expiresIn env0 = 2592000"
  by (simp add: refresh_expiresIn_def env0_def)

section \<open>Facts about the session manager\<close>

lemma generateTokens_eq:
  "generateTokens e t u d =
     (\<lparr>res_user = \<lparr>v_id = u_id u, v_username = username u, v_email = email u,
                    v_firstName = firstName u, v_lastName = lastName u,
                    v_role = role u, v_avatar = avatar u,
                    v_emailVerified = emailVerified u\<rparr>,
        res_tokens = \<lparr>accessToken = generateAccessToken e t
                                      (AccessPayload (u_id u) (username u) (email u) (role u)),
                      newRefreshToken = generateRefreshToken e t (RefreshPayload (u_id u))\<rparr>\<rparr>,
      save (u\<lparr>refreshTokens := refreshTokens u
                @ [\<lparr>token = generateRefreshToken e t (RefreshPayload (u_id u))\<rparr>]\<rparr>) d)"
  by (simp add: generateTokens_def addRefreshToken_def Let_def)

lemma refreshToken_rejected:
  "verifyRefreshToken e t tok = Inl err \<Longrightarrow> refreshToken e t tok d = (Inl err, d)"
  by (simp add: refreshToken_def)

lemma refreshToken_no_user:
  "verifyRefreshToken e t tok = Inr dec \<Longrightarrow> findById (userId (claims dec)) d = None \<Longrightarrow>
   refreshToken e t tok d = (Inl (AuthenticationError ''User not found or inactive''), d)"
  by (simp add: refreshToken_def)

lemma refreshToken_inactive:
  "verifyRefreshToken e t tok = Inr dec \<Longrightarrow> findById (userId (claims dec)) d = Some u \<Longrightarrow>
   \<not> isActive u \<Longrightarrow>
   refreshToken e t tok d = (Inl (AuthenticationError ''User not found or inactive''), d)"
  by (simp add: refreshToken_def)

lemma refreshToken_reuse:
  "verifyRefreshToken e t tok = Inr dec \<Longrightarrow> findById (userId (claims dec)) d = Some u \<Longrightarrow>
   isActive u \<Longrightarrow> \<not> tokenExists tok u \<Longrightarrow>
   refreshToken e t tok d =
     (Inl (AuthenticationError ''Invalid refresh token''), save (u\<lparr>refreshTokens := []\<rparr>) d)"
  by (simp add: refreshToken_def clearRefreshTokens_def Let_def)

lemma refreshToken_rotates:
  "verifyRefreshToken e t tok = Inr dec \<Longrightarrow> findById (userId (claims dec)) d = Some u \<Longrightarrow>
   isActive u \<Longrightarrow> tokenExists tok u \<Longrightarrow>
   refreshToken e t tok d =
     (Inr (fst (generateTokens e t
            (u\<lparr>refreshTokens := filter (\<lambda>rt. token rt \<noteq> tok) (refreshTokens u)\<rparr>) d)),
      save (rotated e t tok u) d)"
  by (simp add: refreshToken_def removeRefreshToken_def generateTokens_eq rotated_def save_save
      Let_def)

lemma refreshToken_success_cases:
  assumes "refreshToken e t tok d = (Inr res, d')"
  obtains dec u where "verifyRefreshToken e t tok = Inr dec"
    and "findById (userId (claims dec)) d = Some u" and "isActive u" and "tokenExists tok u"
  using assms
  by (auto simp: refreshToken_def clearRefreshTokens_def Let_def
      split: sum.splits option.splits if_splits prod.splits)

lemma tokenExists_rotated:
  "tokenExists tok (rotated e t tok u) \<longleftrightarrow>
     generateRefreshToken e t (RefreshPayload (u_id u)) = tok"
  by (auto simp: tokenExists_def rotated_def list_ex_iff)

section \<open>Facts about the sample population\<close>

lemma findById_alice: "findById 1 [alice] = Some alice"
  by (simp add: findById_def findOne_def alice_def)

lemma findById_carol: "findById 3 [alice, bob, carol] = Some carol"
  by (simp add: findById_def findOne_def alice_def bob_def carol_def)

lemma verify_tokenA:
  "t < 2593000 \<Longrightarrow> verifyRefreshToken env0 t tokenA =
     Inr \<lparr>claims = RefreshPayload 1, iat = 1000, exp = 2593000, nbf = None,
          iss = ''blog-platform'', aud = ''blog-platform-users''\<rparr>"
  using verifyRefreshToken_generated [of t 1000 env0 "RefreshPayload 1"]
  by (simp add: tokenA_def refresh_expiresIn_env0)

lemma verify_tokenB:
  "t < 2594000 \<Longrightarrow> verifyRefreshToken env0 t tokenB =
     Inr \<lparr>claims = RefreshPayload 1, iat = 2000, exp = 2594000, nbf = None,
          iss = ''blog-platform'', aud = ''blog-platform-users''\<rparr>"
  using verifyRefreshToken_generated [of t 2000 env0 "RefreshPayload 1"]
  by (simp add: tokenB_def refresh_expiresIn_env0)

lemma verify_tokenOld:
  "verifyRefreshToken env0 1000 tokenOld =
     Inr \<lparr>claims = RefreshPayload 1, iat = 500, exp = 2592500, nbf = None,
          iss = ''blog-platform'', aud = ''blog-platform-users''\<rparr>"
  using verifyRefreshToken_generated [of 1000 500 env0 "RefreshPayload 1"]
  by (simp add: tokenOld_def refresh_expiresIn_env0)

lemma verify_tokenC':
  "verifyRefreshToken env0 1000 tokenC' =
     Inr \<lparr>claims = RefreshPayload 3, iat = 950, exp = 2592950, nbf = None,
          iss = ''blog-platform'', aud = ''blog-platform-users''\<rparr>"
  using verifyRefreshToken_generated [of 1000 950 env0 "RefreshPayload 3"]
  by (simp add: tokenC'_def refresh_expiresIn_env0)

lemma tokenA_expired:
  "verifyRefreshToken env0 2593000 tokenA = Inl (AuthenticationError ''Refresh token has expired'')"
  using verifyRefreshToken_expired [of 1000 env0 2593000 "RefreshPayload 1"]
  by (simp add: tokenA_def refresh_expiresIn_env0)

lemma tokenA_registered: "tokenExists tokenA alice"
  by (simp add: tokenExists_def alice_def)

lemma tokenOld_not_registered: "\<not> tokenExists tokenOld alice"
  by (simp add: tokenExists_def alice_def tokenOld_def tokenA_def generateRefreshToken_inject)

lemma tokenC'_not_registered: "\<not> tokenExists tokenC' carol"
  by (simp add: tokenExists_def carol_def tokenC'_def tokenC_def generateRefreshToken_inject)

lemma tokenB_not_tokenA: "tokenB \<noteq> tokenA"
  by (simp add: tokenA_def tokenB_def generateRefreshToken_inject)

lemma alice_active: "isActive alice"
  by (simp add: alice_def)

lemma carol_inactive: "\<not> isActive carol"
  by (simp add: carol_def)

lemma alice_password: "comparePassword ''Abc123!@#'' alice"
  by (simp add: comparePassword_def alice_def)

lemma alice_wrong_password: "\<not> comparePassword ''wrongpassword'' alice"
  by (simp add: comparePassword_def alice_def)

lemma findById_missing: "findById 9 [alice] = None"
  by (simp add: findById_def findOne_def alice_def)

lemma u_id_alice: "u_id alice = 1"
  by (simp add: alice_def)

lemma save_alice: "save u [alice] = (if u_id u = 1 then [u] else [alice])"
  by (simp add: alice_def)

section \<open>Properties of the token codec\<close>

text \<open>
  C6. When the access secret and the refresh secret differ, an access token is rejected
  by \<^verbatim>\<open>verifyRefreshToken\<close> and a refresh token is rejected by
  \<^verbatim>\<open>verifyAccessToken\<close>, for every payload, every issue time and every
  verification time; the error is the invalid-token one, never the expiry one, because
  the signature is checked before the expiry.
\<close>

theorem cross_verification_rejected:
  assumes "JWT_SECRET e \<noteq> JWT_REFRESH_SECRET e"
  shows "verifyRefreshToken e t (generateAccessToken e now pl) =
           Inl (AuthenticationError ''Invalid refresh token'')
       \<and> verifyAccessToken e t (generateRefreshToken e now pl) =
           Inl (AuthenticationError ''Invalid access token'')"
  using assms
  by (simp add: verifyRefreshToken_def verifyAccessToken_def generateAccessToken_def
      generateRefreshToken_def jwt_sign_def jwt_verify_def)

theorem cross_verification_rejected_witness:
  "JWT_SECRET env0 \<noteq> JWT_REFRESH_SECRET env0
   \<and> verifyRefreshToken env0 100
        (generateAccessToken env0 100 (AccessPayload 1 ''alice'' ''alice@x.com'' ''user''))
       = Inl (AuthenticationError ''Invalid refresh token'')
   \<and> verifyAccessToken env0 100 (generateRefreshToken env0 100 (RefreshPayload 1))
       = Inl (AuthenticationError ''Invalid access token'')"
proof -
  have distinct_secrets: "JWT_SECRET env0 \<noteq> JWT_REFRESH_SECRET env0"
    by (simp add: env0_def)
  from cross_verification_rejected [OF distinct_secrets, THEN conjunct1]
    cross_verification_rejected [OF distinct_secrets, THEN conjunct2] distinct_secrets
  show ?thesis by (intro conjI)
qed

text \<open>
  C7. A token issued by \<^verbatim>\<open>generateAccessToken\<close> and verified by
  \<^verbatim>\<open>verifyAccessToken\<close> before its expiry is accepted, and the decoded result is
  the input payload together with the registered claims \<^verbatim>\<open>iat\<close>, \<^verbatim>\<open>exp\<close>,
  \<^verbatim>\<open>iss\<close> and \<^verbatim>\<open>aud\<close> added at signing time.
\<close>

theorem access_token_round_trip:
  assumes "t < now + access_expiresIn e"
  shows "verifyAccessToken e t (generateAccessToken e now pl) =
           Inr \<lparr>claims = pl, iat = now, exp = now + access_expiresIn e, nbf = None,
                iss = ''blog-platform'', aud = ''blog-platform-users''\<rparr>
       \<and> (\<exists>d. verifyAccessToken e t (generateAccessToken e now pl) = Inr d \<and> claims d = pl)"
  using assms
  by (simp add: verifyAccessToken_def generateAccessToken_def jwt_sign_def jwt_verify_def)

theorem access_token_round_trip_witness:
  "(1000::nat) < 1000 + access_expiresIn env0
   \<and> verifyAccessToken env0 1000
        (generateAccessToken env0 1000 (AccessPayload 1 ''alice'' ''alice@x.com'' ''user''))
       = Inr \<lparr>claims = AccessPayload 1 ''alice'' ''alice@x.com'' ''user'', iat = 1000,
              exp = 605800, nbf = None, iss = ''blog-platform'', aud = ''blog-platform-users''\<rparr>"
proof -
  have lifetime: "access_expiresIn env0 = 604800"
    by (simp add: access_expiresIn_def env0_def)
  have in_time: "(1000::nat) < 1000 + access_expiresIn env0"
    by (simp add: lifetime)
  from access_token_round_trip [OF in_time, THEN conjunct1,
      of "AccessPayload 1 ''alice'' ''alice@x.com'' ''user''"] in_time
  show ?thesis by (simp add: lifetime)
qed

section \<open>Refresh: rotation and revocation\<close>

text \<open>
  C1, as the code has it. A presented refresh token mints a new pair exactly when it
  passes \<^verbatim>\<open>verifyRefreshToken\<close> (signature under the refresh secret, not expired,
  expected issuer and audience), the user it names exists and is active, and the token
  is in that user's \<^verbatim>\<open>refreshTokens\<close>. The call then returns the access token and
  the refresh token signed for that user at the time of the call, and stores the user
  with the presented token removed and the returned refresh token appended. When the
  token verifies and the user exists and is active but does not hold the token, all of
  the user's refresh tokens are cleared and the call fails with
  \<^verbatim>\<open>Invalid refresh token\<close>. When the token verifies and the user is missing or
  inactive, the call fails with \<^verbatim>\<open>User not found or inactive\<close> and the collection
  is left as it was.
\<close>

theorem refresh_outcomes:
  "((\<exists>res d'. refreshToken e t tok d = (Inr res, d')) \<longleftrightarrow>
      (\<exists>dec u. verifyRefreshToken e t tok = Inr dec \<and> findById (userId (claims dec)) d = Some u
          \<and> isActive u \<and> tokenExists tok u))
   \<and> (\<forall>dec u. verifyRefreshToken e t tok = Inr dec \<longrightarrow> findById (userId (claims dec)) d = Some u
          \<longrightarrow> isActive u \<longrightarrow> tokenExists tok u \<longrightarrow>
          refreshToken e t tok d =
            (Inr \<lparr>res_user = \<lparr>v_id = u_id u, v_username = username u, v_email = email u,
                               v_firstName = firstName u, v_lastName = lastName u,
                               v_role = role u, v_avatar = avatar u,
                               v_emailVerified = emailVerified u\<rparr>,
                  res_tokens =
                    \<lparr>accessToken = generateAccessToken e t
                                      (AccessPayload (u_id u) (username u) (email u) (role u)),
                     newRefreshToken = generateRefreshToken e t (RefreshPayload (u_id u))\<rparr>\<rparr>,
             save (u\<lparr>refreshTokens := filter (\<lambda>rt. token rt \<noteq> tok) (refreshTokens u)
                       @ [\<lparr>token = generateRefreshToken e t (RefreshPayload (u_id u))\<rparr>]\<rparr>) d)
          \<and> findById (u_id u)
               (save (u\<lparr>refreshTokens := filter (\<lambda>rt. token rt \<noteq> tok) (refreshTokens u)
                       @ [\<lparr>token = generateRefreshToken e t (RefreshPayload (u_id u))\<rparr>]\<rparr>) d)
              = Some (u\<lparr>refreshTokens := filter (\<lambda>rt. token rt \<noteq> tok) (refreshTokens u)
                       @ [\<lparr>token = generateRefreshToken e t (RefreshPayload (u_id u))\<rparr>]\<rparr>))
   \<and> (\<forall>dec u. verifyRefreshToken e t tok = Inr dec \<longrightarrow> findById (userId (claims dec)) d = Some u
          \<longrightarrow> isActive u \<longrightarrow> \<not> tokenExists tok u \<longrightarrow>
          refreshToken e t tok d =
            (Inl (AuthenticationError ''Invalid refresh token''), save (u\<lparr>refreshTokens := []\<rparr>) d)
          \<and> findById (u_id u) (save (u\<lparr>refreshTokens := []\<rparr>) d) = Some (u\<lparr>refreshTokens := []\<rparr>))
   \<and> (\<forall>dec. verifyRefreshToken e t tok = Inr dec \<longrightarrow>
          (findById (userId (claims dec)) d = None
            \<or> (\<exists>u. findById (userId (claims dec)) d = Some u \<and> \<not> isActive u)) \<longrightarrow>
          refreshToken e t tok d =
            (Inl (AuthenticationError ''User not found or inactive''), d))"
proof (intro conjI allI impI)
  show "(\<exists>res d'. refreshToken e t tok d = (Inr res, d')) \<longleftrightarrow>
      (\<exists>dec u. verifyRefreshToken e t tok = Inr dec \<and> findById (userId (claims dec)) d = Some u
          \<and> isActive u \<and> tokenExists tok u)"
  proof
    assume "\<exists>res d'. refreshToken e t tok d = (Inr res, d')"
    then show "\<exists>dec u. verifyRefreshToken e t tok = Inr dec
        \<and> findById (userId (claims dec)) d = Some u \<and> isActive u \<and> tokenExists tok u"
      by (blast elim: refreshToken_success_cases)
  next
    assume "\<exists>dec u. verifyRefreshToken e t tok = Inr dec
        \<and> findById (userId (claims dec)) d = Some u \<and> isActive u \<and> tokenExists tok u"
    then show "\<exists>res d'. refreshToken e t tok d = (Inr res, d')"
      using refreshToken_rotates by blast
  qed
next
  fix dec u
  assume "verifyRefreshToken e t tok = Inr dec" "findById (userId (claims dec)) d = Some u"
    "isActive u" "tokenExists tok u"
  from refreshToken_rotates [OF this]
  show "refreshToken e t tok d =
      (Inr \<lparr>res_user = \<lparr>v_id = u_id u, v_username = username u, v_email = email u,
                         v_firstName = firstName u, v_lastName = lastName u,
                         v_role = role u, v_avatar = avatar u,
                         v_emailVerified = emailVerified u\<rparr>,
            res_tokens =
              \<lparr>accessToken = generateAccessToken e t
                                (AccessPayload (u_id u) (username u) (email u) (role u)),
               newRefreshToken = generateRefreshToken e t (RefreshPayload (u_id u))\<rparr>\<rparr>,
       save (u\<lparr>refreshTokens := filter (\<lambda>rt. token rt \<noteq> tok) (refreshTokens u)
                 @ [\<lparr>token = generateRefreshToken e t (RefreshPayload (u_id u))\<rparr>]\<rparr>) d)"
    by (simp add: generateTokens_eq rotated_def)
next
  fix dec u
  assume "findById (userId (claims dec)) d = Some u"
  then show "findById (u_id u)
      (save (u\<lparr>refreshTokens := filter (\<lambda>rt. token rt \<noteq> tok) (refreshTokens u)
              @ [\<lparr>token = generateRefreshToken e t (RefreshPayload (u_id u))\<rparr>]\<rparr>) d)
      = Some (u\<lparr>refreshTokens := filter (\<lambda>rt. token rt \<noteq> tok) (refreshTokens u)
              @ [\<lparr>token = generateRefreshToken e t (RefreshPayload (u_id u))\<rparr>]\<rparr>)"
    by (simp add: findById_save_self)
next
  fix dec u
  assume "verifyRefreshToken e t tok = Inr dec" "findById (userId (claims dec)) d = Some u"
    "isActive u" "\<not> tokenExists tok u"
  then show "refreshToken e t tok d =
      (Inl (AuthenticationError ''Invalid refresh token''), save (u\<lparr>refreshTokens := []\<rparr>) d)"
    by (rule refreshToken_reuse)
next
  fix dec u
  assume "findById (userId (claims dec)) d = Some u"
  then show "findById (u_id u) (save (u\<lparr>refreshTokens := []\<rparr>) d)
      = Some (u\<lparr>refreshTokens := []\<rparr>)"
    by (simp add: findById_save_self)
next
  fix dec
  assume "verifyRefreshToken e t tok = Inr dec"
    "findById (userId (claims dec)) d = None
       \<or> (\<exists>u. findById (userId (claims dec)) d = Some u \<and> \<not> isActive u)"
  then show "refreshToken e t tok d =
      (Inl (AuthenticationError ''User not found or inactive''), d)"
    using refreshToken_no_user refreshToken_inactive by blast
qed

text \<open>
  The parts at the sample population. At time 2000 \<open>alice\<close> presents \<open>tokenA\<close>,
  which she holds: she receives the access token and the refresh token \<open>tokenB\<close>
  signed at time 2000, and her collection afterwards holds \<open>tokenB\<close> in place of
  \<open>tokenA\<close>. She presents \<open>tokenOld\<close>, which verifies but is not in her
  collection, and her collection is cleared. \<open>tokenC'\<close> names the inactive
  \<open>carol\<close>.
\<close>

theorem refresh_outcomes_witness:
  "refreshToken env0 2000 tokenA [alice] =
       (Inr \<lparr>res_user = \<lparr>v_id = 1, v_username = ''alice'', v_email = ''alice@x.com'',
                          v_firstName = ''Alice'', v_lastName = ''Liddell'',
                          v_role = ''user'', v_avatar = None, v_emailVerified = False\<rparr>,
             res_tokens =
               \<lparr>accessToken = generateAccessToken env0 2000
                                 (AccessPayload 1 ''alice'' ''alice@x.com'' ''user''),
                newRefreshToken = tokenB\<rparr>\<rparr>,
        [alice\<lparr>refreshTokens := [\<lparr>token = tokenB\<rparr>]\<rparr>])
   \<and> tokenB \<noteq> tokenA
   \<and> refreshToken env0 1000 tokenOld [alice] =
       (Inl (AuthenticationError ''Invalid refresh token''), [alice\<lparr>refreshTokens := []\<rparr>])
   \<and> refreshToken env0 1000 tokenC' [alice, bob, carol] =
       (Inl (AuthenticationError ''User not found or inactive''), [alice, bob, carol])"
proof (intro conjI)
  have A: "verifyRefreshToken env0 2000 tokenA =
      Inr \<lparr>claims = RefreshPayload 1, iat = 1000, exp = 2593000, nbf = None,
           iss = ''blog-platform'', aud = ''blog-platform-users''\<rparr>"
    by (simp add: verify_tokenA)
  have found: "findById (userId (claims \<lparr>claims = RefreshPayload 1, iat = 1000, exp = 2593000,
      nbf = None, iss = ''blog-platform'', aud = ''blog-platform-users''\<rparr>)) [alice] = Some alice"
    using findById_alice by simp
  from refresh_outcomes [THEN conjunct2, THEN conjunct1, rule_format,
      OF A found alice_active tokenA_registered, THEN conjunct1]
  show "refreshToken env0 2000 tokenA [alice] =
       (Inr \<lparr>res_user = \<lparr>v_id = 1, v_username = ''alice'', v_email = ''alice@x.com'',
                          v_firstName = ''Alice'', v_lastName = ''Liddell'',
                          v_role = ''user'', v_avatar = None, v_emailVerified = False\<rparr>,
             res_tokens =
               \<lparr>accessToken = generateAccessToken env0 2000
                                 (AccessPayload 1 ''alice'' ''alice@x.com'' ''user''),
                newRefreshToken = tokenB\<rparr>\<rparr>,
        [alice\<lparr>refreshTokens := [\<lparr>token = tokenB\<rparr>]\<rparr>])"
    by (simp add: alice_def tokenB_def)
next
  show "tokenB \<noteq> tokenA" by (rule tokenB_not_tokenA)
next
  have found: "findById (userId (claims \<lparr>claims = RefreshPayload 1, iat = 500, exp = 2592500,
      nbf = None, iss = ''blog-platform'', aud = ''blog-platform-users''\<rparr>)) [alice] = Some alice"
    using findById_alice by simp
  from refresh_outcomes [THEN conjunct2, THEN conjunct2, THEN conjunct1, rule_format,
      OF verify_tokenOld found alice_active tokenOld_not_registered, THEN conjunct1]
  show "refreshToken env0 1000 tokenOld [alice] =
      (Inl (AuthenticationError ''Invalid refresh token''), [alice\<lparr>refreshTokens := []\<rparr>])"
    by (simp add: save_alice u_id_alice)
next
  have found: "findById (userId (claims \<lparr>claims = RefreshPayload 3, iat = 950, exp = 2592950,
      nbf = None, iss = ''blog-platform'', aud = ''blog-platform-users''\<rparr>)) [alice, bob, carol]
      = Some carol"
    using findById_carol by simp
  from found carol_inactive
  have "findById (userId (claims \<lparr>claims = RefreshPayload 3, iat = 950, exp = 2592950,
      nbf = None, iss = ''blog-platform'', aud = ''blog-platform-users''\<rparr>)) [alice, bob, carol]
      = None
    \<or> (\<exists>u. findById (userId (claims \<lparr>claims = RefreshPayload 3, iat = 950, exp = 2592950,
      nbf = None, iss = ''blog-platform'', aud = ''blog-platform-users''\<rparr>)) [alice, bob, carol]
      = Some u \<and> \<not> isActive u)"
    by (intro disjI2 exI [of _ carol] conjI)
  from refresh_outcomes [THEN conjunct2, THEN conjunct2, THEN conjunct2, rule_format,
      OF verify_tokenC' this]
  show "refreshToken env0 1000 tokenC' [alice, bob, carol] =
      (Inl (AuthenticationError ''User not found or inactive''), [alice, bob, carol])" .
qed

text \<open>
  C1 as stated fails where the named user is inactive: \<open>tokenC'\<close> verifies at time
  1000 and is not in \<open>carol\<close>'s collection, yet the call reports
  \<^verbatim>\<open>User not found or inactive\<close> and \<open>carol\<close> keeps the token she holds.
\<close>

theorem refresh_inactive_user_counterexample:
  "verifyRefreshToken env0 1000 tokenC' =
      Inr \<lparr>claims = RefreshPayload 3, iat = 950, exp = 2592950, nbf = None,
           iss = ''blog-platform'', aud = ''blog-platform-users''\<rparr>
   \<and> findById 3 [alice, bob, carol] = Some carol
   \<and> \<not> tokenExists tokenC' carol
   \<and> refreshTokens carol = [\<lparr>token = tokenC\<rparr>]
   \<and> refreshToken env0 1000 tokenC' [alice, bob, carol] =
       (Inl (AuthenticationError ''User not found or inactive''), [alice, bob, carol])
   \<and> refreshToken env0 1000 tokenC' [alice, bob, carol] \<noteq>
       (Inl (AuthenticationError ''Invalid refresh token''),
        [alice, bob, carol\<lparr>refreshTokens := []\<rparr>])"
  using refreshToken_inactive [OF verify_tokenC', of "[alice, bob, carol]" carol]
    verify_tokenC' findById_carol tokenC'_not_registered carol_inactive
  by (simp add: carol_def)

text \<open>
  What the rotation achieves when the returned refresh token differs from the
  presented one. Let \<^verbatim>\<open>refresh(tokenA)\<close> succeed and return \<open>tokB\<close>, different
  from \<open>tokA\<close>. Then a second \<^verbatim>\<open>refresh(tokenA)\<close>, made while \<open>tokA\<close> still
  verifies, fails with \<^verbatim>\<open>Invalid refresh token\<close>, and so does a following
  \<^verbatim>\<open>refresh(tokenB)\<close>, made while \<open>tokB\<close> still verifies.
\<close>

lemma rotation_revokes_distinct:
  assumes first: "refreshToken e t1 tokA d0 = (Inr res, d1)"
    and B: "tokB = newRefreshToken (res_tokens res)"
    and fresh: "tokB \<noteq> tokA"
    and A_valid: "verifyRefreshToken e t2 tokA = Inr decA"
    and B_valid: "verifyRefreshToken e t3 tokB = Inr decB"
  shows "fst (refreshToken e t2 tokA d1) = Inl (AuthenticationError ''Invalid refresh token'')
       \<and> fst (refreshToken e t3 tokB (snd (refreshToken e t2 tokA d1)))
           = Inl (AuthenticationError ''Invalid refresh token'')"
proof -
  from first obtain dec u where
    dec: "verifyRefreshToken e t1 tokA = Inr dec"
    and u: "findById (userId (claims dec)) d0 = Some u"
    and active: "isActive u" and present: "tokenExists tokA u"
    by (rule refreshToken_success_cases)
  let ?i = "userId (claims dec)"
  let ?u1 = "rotated e t1 tokA u"
  let ?u2 = "?u1\<lparr>refreshTokens := []\<rparr>"
  have id_u: "u_id u = ?i" using u by (rule findById_Some_id)
  from refreshToken_rotates [OF dec u active present] first
  have d1: "d1 = save ?u1 d0"
    and res: "res = fst (generateTokens e t1
        (u\<lparr>refreshTokens := filter (\<lambda>rt. token rt \<noteq> tokA) (refreshTokens u)\<rparr>) d0)"
    by simp_all
  have tokB: "tokB = generateRefreshToken e t1 (RefreshPayload (u_id u))"
    using B res by (simp add: generateTokens_eq)
  have decA: "decA = dec" using dec A_valid by (rule verifyRefreshToken_time)
  have u1: "findById ?i d1 = Some ?u1"
    using findById_save_self [OF u, of ?u1] id_u d1 by (simp add: rotated_def)
  have not_present: "\<not> tokenExists tokA ?u1"
    using fresh tokB by (simp add: tokenExists_rotated)
  have second: "refreshToken e t2 tokA d1 =
      (Inl (AuthenticationError ''Invalid refresh token''), save ?u2 d1)"
    using refreshToken_reuse [OF A_valid [unfolded decA] u1 _ not_present] active
    by (simp add: rotated_def)
  have claimsB: "userId (claims decB) = ?i"
    using B_valid tokB id_u
    by (auto simp: verifyRefreshToken_Inr generateRefreshToken_def jwt_sign_def)
  have u2: "findById (userId (claims decB)) (save ?u2 d1) = Some ?u2"
    using findById_save_self [OF u1, of ?u2] id_u claimsB by (simp add: rotated_def)
  have third: "refreshToken e t3 tokB (save ?u2 d1) =
      (Inl (AuthenticationError ''Invalid refresh token''),
       save (?u2\<lparr>refreshTokens := []\<rparr>) (save ?u2 d1))"
    using refreshToken_reuse [OF B_valid u2] active
    by (simp add: rotated_def tokenExists_def)
  from second third show ?thesis by simp
qed

lemma refresh_at_2000:
  "refreshToken env0 2000 tokenA [alice] =
     (Inr (fst (generateTokens env0 2000
            (alice\<lparr>refreshTokens := filter (\<lambda>rt. token rt \<noteq> tokenA) (refreshTokens alice)\<rparr>)
            [alice])),
      [rotated env0 2000 tokenA alice])"
  using refreshToken_rotates [OF verify_tokenA, of 2000 "[alice]" alice] findById_alice
    alice_active tokenA_registered
  by (simp add: save_alice rotated_def u_id_alice)

lemma refresh_at_2000_token:
  "newRefreshToken (res_tokens (fst (generateTokens env0 2000
      (alice\<lparr>refreshTokens := filter (\<lambda>rt. token rt \<noteq> tokenA) (refreshTokens alice)\<rparr>)
      [alice]))) = tokenB"
  by (simp add: generateTokens_eq tokenB_def u_id_alice)

text \<open>
  So when \<open>alice\<close> refreshes \<open>tokenA\<close> at time 2000 and receives \<open>tokenB\<close>,
  \<open>tokenA\<close> presented again at time 3000 is refused, and so is \<open>tokenB\<close> at
  time 4000. Once \<open>tokenA\<close> has expired, presenting it again is refused with
  \<^verbatim>\<open>Refresh token has expired\<close> instead, before the collection is looked at.
\<close>

lemma rotation_revokes_distinct_example:
  "fst (refreshToken env0 3000 tokenA [rotated env0 2000 tokenA alice])
     = Inl (AuthenticationError ''Invalid refresh token'')
   \<and> fst (refreshToken env0 4000 tokenB
            (snd (refreshToken env0 3000 tokenA [rotated env0 2000 tokenA alice])))
     = Inl (AuthenticationError ''Invalid refresh token'')"
proof -
  have A: "verifyRefreshToken env0 3000 tokenA =
      Inr \<lparr>claims = RefreshPayload 1, iat = 1000, exp = 2593000, nbf = None,
           iss = ''blog-platform'', aud = ''blog-platform-users''\<rparr>"
    by (simp add: verify_tokenA)
  have B: "verifyRefreshToken env0 4000 tokenB =
      Inr \<lparr>claims = RefreshPayload 1, iat = 2000, exp = 2594000, nbf = None,
           iss = ''blog-platform'', aud = ''blog-platform-users''\<rparr>"
    by (simp add: verify_tokenB)
  show ?thesis
    by (rule rotation_revokes_distinct [OF refresh_at_2000 refresh_at_2000_token [symmetric]
          tokenB_not_tokenA A B])
qed

lemma rotation_expired_replay:
  "fst (refreshToken env0 2593000 tokenA (snd (refreshToken env0 2000 tokenA [alice])))
     = Inl (AuthenticationError ''Refresh token has expired'')"
  by (simp add: refreshToken_rejected [OF tokenA_expired])

lemma refresh_same_second:
  "refreshToken env0 1000 tokenA [alice] =
     (Inr (fst (generateTokens env0 1000
            (alice\<lparr>refreshTokens := filter (\<lambda>rt. token rt \<noteq> tokenA) (refreshTokens alice)\<rparr>)
            [alice])),
      [alice])"
proof -
  have "rotated env0 1000 tokenA alice = alice"
    by (simp add: rotated_def alice_def tokenA_def)
  then show ?thesis
    using refreshToken_rotates [OF verify_tokenA, of 1000 "[alice]" alice] findById_alice
      alice_active tokenA_registered
    by (simp add: save_alice u_id_alice)
qed

lemma refresh_again_succeeds: "\<not> isl (fst (refreshToken env0 1001 tokenA [alice]))"
  using refreshToken_rotates [OF verify_tokenA, of 1001 "[alice]" alice] findById_alice
    alice_active tokenA_registered
  by simp

text \<open>
  C2. The claim is that after \<^verbatim>\<open>refresh(tokenA)\<close> has returned \<open>tokenB\<close>, a second
  \<^verbatim>\<open>refresh(tokenA)\<close> fails with \<^verbatim>\<open>Invalid refresh token\<close> and revokes
  \<open>tokenB\<close> too. The code does not achieve this when the refresh is made in the
  clock second in which \<open>tokenA\<close> was issued. The refresh token is signed from the
  user's id and the clock second alone, so the token returned is \<open>tokenA\<close> itself;
  it is registered again, the collection is the one before the call, and the second
  \<^verbatim>\<open>refresh(tokenA)\<close> succeeds. Here \<open>alice\<close>, who holds \<open>tokenA\<close> issued at
  second 1000, refreshes it at second 1000 and again at second 1001.
\<close>

theorem rotation_same_second_replay:
  "tokenExists tokenA alice
   \<and> \<not> isl (fst (refreshToken env0 1000 tokenA [alice]))
   \<and> newRefreshToken (res_tokens (projr (fst (refreshToken env0 1000 tokenA [alice])))) = tokenA
   \<and> snd (refreshToken env0 1000 tokenA [alice]) = [alice]
   \<and> \<not> isl (fst (refreshToken env0 1001 tokenA (snd (refreshToken env0 1000 tokenA [alice]))))
   \<and> fst (refreshToken env0 1001 tokenA (snd (refreshToken env0 1000 tokenA [alice])))
       \<noteq> Inl (AuthenticationError ''Invalid refresh token'')"
proof -
  let ?r = "fst (generateTokens env0 1000
      (alice\<lparr>refreshTokens := filter (\<lambda>rt. token rt \<noteq> tokenA) (refreshTokens alice)\<rparr>)
      [alice])"
  have same: "newRefreshToken (res_tokens ?r) = tokenA"
    by (simp add: generateTokens_eq alice_def tokenA_def)
  have again: "fst (refreshToken env0 1001 tokenA [alice])
      \<noteq> Inl (AuthenticationError ''Invalid refresh token'')"
    using refresh_again_succeeds by (cases "fst (refreshToken env0 1001 tokenA [alice])") auto
  show ?thesis
    using refresh_again_succeeds tokenA_registered same again
    by (simp add: refresh_same_second)
qed

section \<open>Registration conflicts\<close>

lemma findOne_Some_set: "findOne P d = Some x \<Longrightarrow> x \<in> set d \<and> P x"
  by (auto simp: findOne_def find_Some_iff)

lemma findOne_None_iff: "findOne P d = None \<longleftrightarrow> (\<forall>x\<in>set d. \<not> P x)"
  by (auto simp: findOne_def find_None_iff)

lemma register_existing:
  "findOne (\<lambda>u. email u = em \<or> username u = un) (scan d) = Some x \<Longrightarrow>
   register e t scan un em pw fn ln rl d =
     (Inl (ConflictError (if email x = em then ''Email already registered''
                          else ''Username already taken'')), d)"
  by (simp add: register_def)

lemma register_fresh:
  "findOne (\<lambda>u. email u = em \<or> username u = un) (scan d) = None \<Longrightarrow>
   \<exists>res d'. register e t scan un em pw fn ln rl d = (Inr res, d')"
  by (simp add: register_def split: prod.splits)

text \<open>
  The conflicts that do not depend on the order in which the lookup sees the
  collection: the email conflict is reported whenever some user has the email and
  every user with the username has the email too (one user colliding on both fields
  included), and the username conflict whenever some user has the username and none
  has the email. In every conflict the collection is left as it was.
\<close>

lemma register_conflict_any_order:
  assumes scan: "set (scan d) = set d"
  shows "((\<exists>u\<in>set d. email u = em) \<and> (\<forall>u\<in>set d. username u = un \<longrightarrow> email u = em) \<longrightarrow>
        register e t scan un em pw fn ln rl d
          = (Inl (ConflictError ''Email already registered''), d))
   \<and> ((\<exists>u\<in>set d. username u = un) \<and> (\<forall>u\<in>set d. email u \<noteq> em) \<longrightarrow>
        register e t scan un em pw fn ln rl d
          = (Inl (ConflictError ''Username already taken''), d))"
proof (intro conjI impI)
  assume h: "(\<exists>u\<in>set d. email u = em) \<and> (\<forall>u\<in>set d. username u = un \<longrightarrow> email u = em)"
  then have "findOne (\<lambda>u. email u = em \<or> username u = un) (scan d) \<noteq> None"
    using scan by (auto simp: findOne_None_iff)
  then obtain x where x: "findOne (\<lambda>u. email u = em \<or> username u = un) (scan d) = Some x"
    by blast
  with h scan have "email x = em"
    by (auto dest: findOne_Some_set)
  with x show "register e t scan un em pw fn ln rl d
      = (Inl (ConflictError ''Email already registered''), d)"
    by (simp add: register_existing)
next
  assume h: "(\<exists>u\<in>set d. username u = un) \<and> (\<forall>u\<in>set d. email u \<noteq> em)"
  then have "findOne (\<lambda>u. email u = em \<or> username u = un) (scan d) \<noteq> None"
    using scan by (auto simp: findOne_None_iff)
  then obtain x where x: "findOne (\<lambda>u. email u = em \<or> username u = un) (scan d) = Some x"
    by blast
  with h scan have "email x \<noteq> em"
    by (auto dest: findOne_Some_set)
  with x show "register e t scan un em pw fn ln rl d
      = (Inl (ConflictError ''Username already taken''), d)"
    by (simp add: register_existing)
qed

text \<open>
  When the email and the username collide with two different users, the error is that
  of the user the lookup yields, and so it depends on the order: a registration with
  \<open>bob\<close>'s username and \<open>carol\<close>'s email reports the username when the lookup
  sees the collection as stored, and the email when it sees it reversed.
\<close>

lemma register_two_users_order:
  "register env0 1000 (\<lambda>d. d) ''bob'' ''carol@x.com'' ''Dav123!@#'' ''Dave'' ''Jones'' None
        [alice, bob, carol]
      = (Inl (ConflictError ''Username already taken''), [alice, bob, carol])
   \<and> register env0 1000 rev ''bob'' ''carol@x.com'' ''Dav123!@#'' ''Dave'' ''Jones'' None
        [alice, bob, carol]
      = (Inl (ConflictError ''Email already registered''), [alice, bob, carol])"
proof (rule conjI)
  have "findOne (\<lambda>u. email u = ''carol@x.com'' \<or> username u = ''bob'') [alice, bob, carol]
      = Some bob"
    by (simp add: findOne_def alice_def bob_def carol_def)
  from register_existing [where scan = "\<lambda>d. d", OF this,
      of env0 1000 "''Dav123!@#''" "''Dave''" "''Jones''" None]
  show "register env0 1000 (\<lambda>d. d) ''bob'' ''carol@x.com'' ''Dav123!@#'' ''Dave'' ''Jones'' None
        [alice, bob, carol]
      = (Inl (ConflictError ''Username already taken''), [alice, bob, carol])"
    by (simp add: bob_def)
next
  have "findOne (\<lambda>u. email u = ''carol@x.com'' \<or> username u = ''bob'')
      (rev [alice, bob, carol]) = Some carol"
    by (simp add: findOne_def alice_def bob_def carol_def)
  from register_existing [where scan = rev, OF this,
      of env0 1000 "''Dav123!@#''" "''Dave''" "''Jones''" None]
  show "register env0 1000 rev ''bob'' ''carol@x.com'' ''Dav123!@#'' ''Dave'' ''Jones'' None
        [alice, bob, carol]
      = (Inl (ConflictError ''Email already registered''), [alice, bob, carol])"
    by (simp add: carol_def)
qed

section \<open>Login failures\<close>

text \<open>
  C4. In each of the three failure cases of \<^verbatim>\<open>login\<close> (no user with the email, the
  user inactive, the password comparison failing) the result is the same
  \<^verbatim>\<open>AuthenticationError\<close> with the message \<^verbatim>\<open>Invalid email or password\<close>, and the
  collection is left as it was; hence any two failing calls, whatever their
  collections, emails and passwords, return equal errors.
\<close>

theorem login_failures_indistinguishable:
  "((findOne (\<lambda>u. email u = em) d = None
      \<or> (\<exists>u. findOne (\<lambda>u. email u = em) d = Some u \<and> \<not> isActive u)
      \<or> (\<exists>u. findOne (\<lambda>u. email u = em) d = Some u \<and> isActive u \<and> \<not> comparePassword pw u))
     \<longrightarrow> login e t em pw d = (Inl (AuthenticationError ''Invalid email or password''), d))
   \<and> (\<forall>err. fst (login e t em pw d) = Inl err \<longrightarrow>
         err = AuthenticationError ''Invalid email or password'')
   \<and> (\<forall>err err'. fst (login e t em pw d) = Inl err \<longrightarrow> fst (login e' t' em' pw' d') = Inl err'
         \<longrightarrow> err = err')"
proof -
  have only: "err = AuthenticationError ''Invalid email or password''"
    if "fst (login e t em pw d) = Inl err" for e t em pw d err
    using that
    by (auto simp: login_def Let_def split: option.splits if_splits prod.splits)
  have cases: "login e t em pw d = (Inl (AuthenticationError ''Invalid email or password''), d)"
    if "findOne (\<lambda>u. email u = em) d = None
      \<or> (\<exists>u. findOne (\<lambda>u. email u = em) d = Some u \<and> \<not> isActive u)
      \<or> (\<exists>u. findOne (\<lambda>u. email u = em) d = Some u \<and> isActive u \<and> \<not> comparePassword pw u)"
    using that by (auto simp: login_def)
  from only cases show ?thesis by blast
qed

text \<open>
  The three cases at the sample population: an unknown email, the inactive \<open>carol\<close>
  with her own password, and \<open>alice\<close> with a wrong password.
\<close>

theorem login_failures_indistinguishable_witness:
  "login env0 1000 ''nobody@x.com'' ''Abc123!@#'' [alice, bob, carol]
     = (Inl (AuthenticationError ''Invalid email or password''), [alice, bob, carol])
   \<and> login env0 1000 ''carol@x.com'' ''Car789!@#'' [alice, bob, carol]
     = (Inl (AuthenticationError ''Invalid email or password''), [alice, bob, carol])
   \<and> login env0 1000 ''alice@x.com'' ''wrongpassword'' [alice, bob, carol]
     = (Inl (AuthenticationError ''Invalid email or password''), [alice, bob, carol])"
proof (intro conjI)
  have "findOne (\<lambda>u. email u = ''nobody@x.com'') [alice, bob, carol] = None"
    by (simp add: findOne_def alice_def bob_def carol_def)
  then show "login env0 1000 ''nobody@x.com'' ''Abc123!@#'' [alice, bob, carol]
     = (Inl (AuthenticationError ''Invalid email or password''), [alice, bob, carol])"
    by (intro login_failures_indistinguishable [THEN conjunct1, THEN mp] disjI1)
next
  have "findOne (\<lambda>u. email u = ''carol@x.com'') [alice, bob, carol] = Some carol"
    by (simp add: findOne_def alice_def bob_def carol_def)
  with carol_inactive
  have "\<exists>u. findOne (\<lambda>u. email u = ''carol@x.com'') [alice, bob, carol] = Some u
      \<and> \<not> isActive u"
    by (intro exI [of _ carol] conjI)
  then show "login env0 1000 ''carol@x.com'' ''Car789!@#'' [alice, bob, carol]
     = (Inl (AuthenticationError ''Invalid email or password''), [alice, bob, carol])"
    by (intro login_failures_indistinguishable [THEN conjunct1, THEN mp] disjI2 disjI1)
next
  have "findOne (\<lambda>u. email u = ''alice@x.com'') [alice, bob, carol] = Some alice"
    by (simp add: findOne_def alice_def)
  moreover have "\<not> comparePassword ''wrongpassword'' alice"
    by (simp add: comparePassword_def alice_def)
  ultimately
  have "\<exists>u. findOne (\<lambda>u. email u = ''alice@x.com'') [alice, bob, carol] = Some u
      \<and> isActive u \<and> \<not> comparePassword ''wrongpassword'' u"
    using alice_active by (intro exI [of _ alice] conjI)
  then show "login env0 1000 ''alice@x.com'' ''wrongpassword'' [alice, bob, carol]
     = (Inl (AuthenticationError ''Invalid email or password''), [alice, bob, carol])"
    by (intro login_failures_indistinguishable [THEN conjunct1, THEN mp] disjI2)
qed

section \<open>Password change and logout from all devices\<close>

lemma changePassword_missing:
  "findById i d = None \<Longrightarrow>
   changePassword i cur new d = (Inl (NotFoundError ''User not found''), d)"
  by (simp add: changePassword_def)

lemma changePassword_wrong:
  "findById i d = Some u \<Longrightarrow> \<not> comparePassword cur u \<Longrightarrow>
   changePassword i cur new d = (Inl (AuthenticationError ''Current password is incorrect''), d)"
  by (simp add: changePassword_def)

lemma changePassword_success:
  "findById i d = Some u \<Longrightarrow> comparePassword cur u \<Longrightarrow>
   changePassword i cur new d =
     (Inr ''Password changed successfully'',
      save (u\<lparr>password := Hashed new, refreshTokens := []\<rparr>) d)"
  by (simp add: changePassword_def clearRefreshTokens_def Let_def save_save)

lemma logoutAll_found:
  "findById i d = Some u \<Longrightarrow> logoutAll i d = (Inr (), save (u\<lparr>refreshTokens := []\<rparr>) d)"
  by (simp add: logoutAll_def clearRefreshTokens_def Let_def)

lemma refresh_without_tokens:
  assumes u: "findById i d = Some u" and empty: "refreshTokens u = []"
    and dec: "verifyRefreshToken e t tok = Inr dec" and names: "userId (claims dec) = i"
  shows "fst (refreshToken e t tok d) =
     Inl (AuthenticationError (if isActive u then ''Invalid refresh token''
                               else ''User not found or inactive''))"
proof (cases "isActive u")
  case True
  have "\<not> tokenExists tok u" using empty by (simp add: tokenExists_def)
  with refreshToken_reuse [OF dec _ True] u names True show ?thesis by simp
next
  case False
  with refreshToken_inactive [OF dec _ False] u names show ?thesis by simp
qed

text \<open>
  C5, as the code has it. With a missing user \<^verbatim>\<open>changePassword\<close> fails with
  \<^verbatim>\<open>NotFoundError\<close>, with a wrong current password with
  \<^verbatim>\<open>AuthenticationError('Current password is incorrect')\<close>. With the correct current
  password it succeeds, stores the hash of the new password and empties the user's
  \<^verbatim>\<open>refreshTokens\<close>. After that, and likewise after \<^verbatim>\<open>logoutAll\<close>, every refresh
  token naming the user is refused by \<^verbatim>\<open>refresh\<close>: with \<^verbatim>\<open>Invalid refresh token\<close>
  when it verifies and the user is active, with \<^verbatim>\<open>User not found or inactive\<close> when
  it verifies and the user is inactive, and with the codec's own error (such as
  \<^verbatim>\<open>Refresh token has expired\<close>) when it does not verify.
\<close>

theorem changePassword_revokes_sessions:
  "(findById i d = None \<longrightarrow>
      changePassword i cur new d = (Inl (NotFoundError ''User not found''), d))
   \<and> (\<forall>u. findById i d = Some u \<and> \<not> comparePassword cur u \<longrightarrow>
         changePassword i cur new d =
           (Inl (AuthenticationError ''Current password is incorrect''), d))
   \<and> (\<forall>u. findById i d = Some u \<and> comparePassword cur u \<longrightarrow>
         changePassword i cur new d =
           (Inr ''Password changed successfully'',
            save (u\<lparr>password := Hashed new, refreshTokens := []\<rparr>) d)
         \<and> findById i (save (u\<lparr>password := Hashed new, refreshTokens := []\<rparr>) d)
             = Some (u\<lparr>password := Hashed new, refreshTokens := []\<rparr>)
         \<and> (\<forall>tok t dec. verifyRefreshToken e t tok = Inr dec \<and> userId (claims dec) = i \<longrightarrow>
               fst (refreshToken e t tok (save (u\<lparr>password := Hashed new, refreshTokens := []\<rparr>) d))
                 = Inl (AuthenticationError (if isActive u then ''Invalid refresh token''
                                             else ''User not found or inactive'')))
         \<and> (\<forall>tok t err. verifyRefreshToken e t tok = Inl err \<longrightarrow>
               fst (refreshToken e t tok (save (u\<lparr>password := Hashed new, refreshTokens := []\<rparr>) d))
                 = Inl err))
   \<and> (\<forall>u. findById i d = Some u \<longrightarrow>
         logoutAll i d = (Inr (), save (u\<lparr>refreshTokens := []\<rparr>) d)
         \<and> (\<forall>tok t dec. verifyRefreshToken e t tok = Inr dec \<and> userId (claims dec) = i \<longrightarrow>
               fst (refreshToken e t tok (save (u\<lparr>refreshTokens := []\<rparr>) d))
                 = Inl (AuthenticationError (if isActive u then ''Invalid refresh token''
                                             else ''User not found or inactive'')))
         \<and> (\<forall>tok t err. verifyRefreshToken e t tok = Inl err \<longrightarrow>
               fst (refreshToken e t tok (save (u\<lparr>refreshTokens := []\<rparr>) d)) = Inl err))"
proof (intro conjI allI impI)
  assume "findById i d = None"
  then show "changePassword i cur new d = (Inl (NotFoundError ''User not found''), d)"
    by (rule changePassword_missing)
next
  fix u assume "findById i d = Some u \<and> \<not> comparePassword cur u"
  then show "changePassword i cur new d =
      (Inl (AuthenticationError ''Current password is incorrect''), d)"
    by (simp add: changePassword_wrong)
next
  fix u assume "findById i d = Some u \<and> comparePassword cur u"
  then show "changePassword i cur new d =
      (Inr ''Password changed successfully'',
       save (u\<lparr>password := Hashed new, refreshTokens := []\<rparr>) d)"
    by (simp add: changePassword_success)
next
  fix u assume "findById i d = Some u \<and> comparePassword cur u"
  then show "findById i (save (u\<lparr>password := Hashed new, refreshTokens := []\<rparr>) d)
      = Some (u\<lparr>password := Hashed new, refreshTokens := []\<rparr>)"
    by (simp add: findById_save_found)
next
  fix u tok t dec
  assume u: "findById i d = Some u \<and> comparePassword cur u"
    and tok: "verifyRefreshToken e t tok = Inr dec \<and> userId (claims dec) = i"
  let ?u = "u\<lparr>password := Hashed new, refreshTokens := []\<rparr>"
  from u have "findById i (save ?u d) = Some ?u"
    by (simp add: findById_save_found)
  from refresh_without_tokens [OF this _ conjunct1 [OF tok] conjunct2 [OF tok]]
  show "fst (refreshToken e t tok (save ?u d))
      = Inl (AuthenticationError (if isActive u then ''Invalid refresh token''
                                  else ''User not found or inactive''))"
    by simp
next
  fix u tok t err
  assume "verifyRefreshToken e t tok = Inl err"
  then show "fst (refreshToken e t tok (save (u\<lparr>password := Hashed new, refreshTokens := []\<rparr>) d))
      = Inl err"
    by (simp add: refreshToken_rejected)
next
  fix u assume "findById i d = Some u"
  then show "logoutAll i d = (Inr (), save (u\<lparr>refreshTokens := []\<rparr>) d)"
    by (rule logoutAll_found)
next
  fix u tok t dec
  assume u: "findById i d = Some u"
    and tok: "verifyRefreshToken e t tok = Inr dec \<and> userId (claims dec) = i"
  let ?u = "u\<lparr>refreshTokens := []\<rparr>"
  from u have "findById i (save ?u d) = Some ?u"
    by (simp add: findById_save_found)
  from refresh_without_tokens [OF this _ conjunct1 [OF tok] conjunct2 [OF tok]]
  show "fst (refreshToken e t tok (save ?u d))
      = Inl (AuthenticationError (if isActive u then ''Invalid refresh token''
                                  else ''User not found or inactive''))"
    by simp
next
  fix u tok t err
  assume "verifyRefreshToken e t tok = Inl err"
  then show "fst (refreshToken e t tok (save (u\<lparr>refreshTokens := []\<rparr>) d)) = Inl err"
    by (simp add: refreshToken_rejected)
qed

text \<open>
  At the sample population: \<open>alice\<close> changes her password, and \<open>tokenA\<close>, which
  she held, is refused at time 2000 with \<^verbatim>\<open>Invalid refresh token\<close>; a wrong current
  password and a missing user are refused.
\<close>

lemma alice_after_change:
  "save (alice\<lparr>password := Hashed new, refreshTokens := []\<rparr>) [alice]
     = [alice\<lparr>password := Hashed new, refreshTokens := []\<rparr>]"
  by (simp add: save_alice u_id_alice)

theorem changePassword_revokes_sessions_witness:
  "changePassword 9 ''Abc123!@#'' ''New456!@#'' [alice]
     = (Inl (NotFoundError ''User not found''), [alice])
   \<and> changePassword 1 ''wrongpassword'' ''New456!@#'' [alice]
     = (Inl (AuthenticationError ''Current password is incorrect''), [alice])
   \<and> changePassword 1 ''Abc123!@#'' ''New456!@#'' [alice]
     = (Inr ''Password changed successfully'',
        [alice\<lparr>password := Hashed ''New456!@#'', refreshTokens := []\<rparr>])
   \<and> fst (refreshToken env0 2000 tokenA
            [alice\<lparr>password := Hashed ''New456!@#'', refreshTokens := []\<rparr>])
     = Inl (AuthenticationError ''Invalid refresh token'')"
proof (intro conjI)
  show "changePassword 9 ''Abc123!@#'' ''New456!@#'' [alice]
     = (Inl (NotFoundError ''User not found''), [alice])"
    by (rule changePassword_revokes_sessions [THEN conjunct1, THEN mp, OF findById_missing])
next
  show "changePassword 1 ''wrongpassword'' ''New456!@#'' [alice]
     = (Inl (AuthenticationError ''Current password is incorrect''), [alice])"
    by (rule changePassword_revokes_sessions [THEN conjunct2, THEN conjunct1, THEN spec,
          THEN mp, OF conjI [OF findById_alice alice_wrong_password]])
next
  from changePassword_revokes_sessions [where new = "''New456!@#''", THEN conjunct2,
      THEN conjunct2, THEN conjunct1, THEN spec, THEN mp,
      OF conjI [OF findById_alice alice_password]]
  show "changePassword 1 ''Abc123!@#'' ''New456!@#'' [alice]
     = (Inr ''Password changed successfully'',
        [alice\<lparr>password := Hashed ''New456!@#'', refreshTokens := []\<rparr>])"
    by (simp add: alice_after_change)
next
  note ok = changePassword_revokes_sessions [where new = "''New456!@#''" and e = env0,
      THEN conjunct2, THEN conjunct2, THEN conjunct1, THEN spec, THEN mp,
      OF conjI [OF findById_alice alice_password]]
  have A: "verifyRefreshToken env0 2000 tokenA =
      Inr \<lparr>claims = RefreshPayload 1, iat = 1000, exp = 2593000, nbf = None,
           iss = ''blog-platform'', aud = ''blog-platform-users''\<rparr>"
    by (simp add: verify_tokenA)
  have names: "userId (claims \<lparr>claims = RefreshPayload 1, iat = 1000, exp = 2593000,
      nbf = None, iss = ''blog-platform'', aud = ''blog-platform-users''\<rparr>) = 1"
    by simp
  from ok [THEN conjunct2, THEN conjunct2, THEN conjunct1, rule_format,
      OF conjI [OF A names]]
  show "fst (refreshToken env0 2000 tokenA
            [alice\<lparr>password := Hashed ''New456!@#'', refreshTokens := []\<rparr>])
     = Inl (AuthenticationError ''Invalid refresh token'')"
    by (simp add: alice_after_change alice_active)
qed

text \<open>
  C5 as stated fails for a token that has expired: after \<open>alice\<close>'s password change,
  \<open>tokenA\<close> presented at its expiry time 2593000 is refused with
  \<^verbatim>\<open>Refresh token has expired\<close>, not with \<^verbatim>\<open>Invalid refresh token\<close>.
\<close>

theorem changePassword_expired_token_counterexample:
  "tokenExists tokenA alice
   \<and> fst (changePassword 1 ''Abc123!@#'' ''New456!@#'' [alice])
       = Inr ''Password changed successfully''
   \<and> fst (refreshToken env0 2593000 tokenA
            (snd (changePassword 1 ''Abc123!@#'' ''New456!@#'' [alice])))
       = Inl (AuthenticationError ''Refresh token has expired'')"
  using tokenA_registered changePassword_success [OF findById_alice alice_password]
  by (simp add: refreshToken_rejected [OF tokenA_expired])

text \<open>
  C9. A failing \<^verbatim>\<open>changePassword\<close> leaves the collection as it was, so the stored
  password hash and the refresh tokens of every user keep their value; and it fails
  only because the user is missing or because the current password does not match.
\<close>

theorem changePassword_failure_keeps_state:
  assumes "fst (changePassword i cur new d) = Inl err"
  shows "snd (changePassword i cur new d) = d
       \<and> (findById i d = None \<and> err = NotFoundError ''User not found''
          \<or> (\<exists>u. findById i d = Some u \<and> \<not> comparePassword cur u
                \<and> err = AuthenticationError ''Current password is incorrect''))"
  using assms
  by (auto simp: changePassword_def clearRefreshTokens_def Let_def
      split: option.splits if_splits)

theorem changePassword_failure_keeps_state_witness:
  "fst (changePassword 1 ''wrongpassword'' ''New456!@#'' [alice])
     = Inl (AuthenticationError ''Current password is incorrect'')
   \<and> snd (changePassword 1 ''wrongpassword'' ''New456!@#'' [alice]) = [alice]
   \<and> fst (changePassword 9 ''Abc123!@#'' ''New456!@#'' [alice])
     = Inl (NotFoundError ''User not found'')
   \<and> snd (changePassword 9 ''Abc123!@#'' ''New456!@#'' [alice]) = [alice]"
proof -
  have wrong: "fst (changePassword 1 ''wrongpassword'' ''New456!@#'' [alice])
      = Inl (AuthenticationError ''Current password is incorrect'')"
    using changePassword_wrong [OF findById_alice alice_wrong_password, of "''New456!@#''"]
    by simp
  have missing: "fst (changePassword 9 ''Abc123!@#'' ''New456!@#'' [alice])
      = Inl (NotFoundError ''User not found'')"
    using changePassword_missing [OF findById_missing, of "''Abc123!@#''" "''New456!@#''"]
    by simp
  from changePassword_failure_keeps_state [OF wrong, THEN conjunct1]
    changePassword_failure_keeps_state [OF missing, THEN conjunct1] wrong missing
  show ?thesis by (intro conjI)
qed

section \<open>Logout\<close>

lemma logout_no_user: "findById i d = None \<Longrightarrow> logout i t d = (Inr (), d)"
  by (simp add: logout_def)

lemma logout_no_token: "presented t = None \<Longrightarrow> logout i t d = (Inr (), d)"
  by (simp add: logout_def split: option.splits)

lemma logout_removes:
  "findById i d = Some u \<Longrightarrow> presented t = Some tok \<Longrightarrow>
   logout i t d =
     (Inr (), save (u\<lparr>refreshTokens := filter (\<lambda>rt. token rt \<noteq> tok) (refreshTokens u)\<rparr>) d)"
  by (simp add: logout_def removeRefreshToken_def Let_def)

lemma logout_absent_token:
  assumes u: "findById i d = Some u" and t: "presented t = Some tok"
    and absent: "\<not> tokenExists tok u"
  shows "logout i t d = (Inr (), d)"
proof -
  have "filter (\<lambda>rt. token rt \<noteq> tok) (refreshTokens u) = refreshTokens u"
    using absent by (simp add: tokenExists_def filter_absent)
  moreover have "save u d = d"
    using u findById_Some_id [OF u] by (simp add: save_same)
  ultimately show ?thesis
    using logout_removes [OF u t] by simp
qed

lemma logout_other_users: "j \<noteq> i \<Longrightarrow> findById j (snd (logout i t d)) = findById j d"
  by (auto simp: logout_def removeRefreshToken_def Let_def findById_save
      dest: findById_Some_id split: option.splits)

lemma logout_succeeds: "fst (logout i t d) = Inr ()"
  by (simp add: logout_def removeRefreshToken_def Let_def split: option.splits)

lemma logout_twice: "logout i t (snd (logout i t d)) = logout i t d"
proof (cases "findById i d")
  case None
  then show ?thesis by (simp add: logout_no_user)
next
  case (Some u)
  show ?thesis
  proof (cases "presented t")
    case None
    then show ?thesis by (simp add: logout_no_token)
  next
    case (Some tok)
    let ?u = "u\<lparr>refreshTokens := filter (\<lambda>rt. token rt \<noteq> tok) (refreshTokens u)\<rparr>"
    have first: "logout i t d = (Inr (), save ?u d)"
      using \<open>findById i d = Some u\<close> Some by (rule logout_removes)
    have found: "findById i (save ?u d) = Some ?u"
      using \<open>findById i d = Some u\<close> findById_Some_id [OF \<open>findById i d = Some u\<close>]
      by (simp add: findById_save)
    have "\<not> tokenExists tok ?u"
      by (simp add: tokenExists_def list_ex_iff)
    from logout_absent_token [OF found Some this] first show ?thesis by simp
  qed
qed

text \<open>
  C8. \<^verbatim>\<open>logout\<close> never fails, and neither does the handler that calls it. When the
  user exists and a token is presented, the user's collection afterwards is the old one
  without the entries of that token, every other entry kept in place; when the token
  is not in the collection, when it is omitted or empty, or when the user is absent,
  the collection of users is left as it was. No other user is touched, and a repeated
  logout changes nothing further.
\<close>

theorem logout_never_fails:
  "fst (logout i t d) = Inr ()
   \<and> fst (logout_controller i t d)
       = Inr \<lparr>status = 200, success = True, message = ''Logout successful''\<rparr>
   \<and> snd (logout_controller i t d) = snd (logout i t d)
   \<and> (findById i d = None \<or> presented t = None \<longrightarrow> snd (logout i t d) = d)
   \<and> (\<forall>u tok. findById i d = Some u \<and> presented t = Some tok \<longrightarrow>
         snd (logout i t d)
           = save (u\<lparr>refreshTokens := filter (\<lambda>rt. token rt \<noteq> tok) (refreshTokens u)\<rparr>) d
         \<and> findById i (snd (logout i t d))
           = Some (u\<lparr>refreshTokens := filter (\<lambda>rt. token rt \<noteq> tok) (refreshTokens u)\<rparr>)
         \<and> (\<not> tokenExists tok u \<longrightarrow> snd (logout i t d) = d))
   \<and> (\<forall>j. j \<noteq> i \<longrightarrow> findById j (snd (logout i t d)) = findById j d)
   \<and> logout i t (snd (logout i t d)) = logout i t d"
proof (intro conjI allI impI)
  show "fst (logout i t d) = Inr ()" by (rule logout_succeeds)
next
  show "fst (logout_controller i t d)
      = Inr \<lparr>status = 200, success = True, message = ''Logout successful''\<rparr>"
    by (simp add: logout_controller_def logout_def removeRefreshToken_def Let_def presented_def
        split: option.splits prod.splits sum.splits if_splits)
next
  show "snd (logout_controller i t d) = snd (logout i t d)"
    by (auto simp: logout_controller_def logout_def removeRefreshToken_def Let_def presented_def
        split: option.splits prod.splits sum.splits if_splits)
next
  assume "findById i d = None \<or> presented t = None"
  then show "snd (logout i t d) = d"
    by (auto simp: logout_no_user logout_no_token)
next
  fix u tok assume "findById i d = Some u \<and> presented t = Some tok"
  then show "snd (logout i t d)
      = save (u\<lparr>refreshTokens := filter (\<lambda>rt. token rt \<noteq> tok) (refreshTokens u)\<rparr>) d"
    by (simp add: logout_removes)
next
  fix u tok assume h: "findById i d = Some u \<and> presented t = Some tok"
  then show "findById i (snd (logout i t d))
      = Some (u\<lparr>refreshTokens := filter (\<lambda>rt. token rt \<noteq> tok) (refreshTokens u)\<rparr>)"
    using findById_Some_id [of i d u] by (simp add: logout_removes findById_save)
next
  fix u tok assume "findById i d = Some u \<and> presented t = Some tok" "\<not> tokenExists tok u"
  then show "snd (logout i t d) = d"
    by (simp add: logout_absent_token)
next
  fix j assume "j \<noteq> i"
  then show "findById j (snd (logout i t d)) = findById j d"
    by (rule logout_other_users)
next
  show "logout i t (snd (logout i t d)) = logout i t d" by (rule logout_twice)
qed

text \<open>
  At the sample population: \<open>alice2\<close> logs out with \<open>tokenA\<close> and keeps
  \<open>tokenOld\<close>; with \<open>tokenB\<close>, which she does not hold, with no token, and for an
  absent user, nothing changes.
\<close>

lemma findById_alice2: "findById 1 [alice2] = Some alice2"
  by (simp add: findById_def findOne_def alice2_def alice_def)

lemma tokenB_not_held: "\<not> tokenExists tokenB alice2"
  by (simp add: tokenExists_def alice2_def tokenB_def tokenA_def tokenOld_def
      generateRefreshToken_inject)

lemma tokenA_presented: "presented (Some tokenA) = Some tokenA"
  by (simp add: presented_def tokenA_def generateRefreshToken_def jwt_sign_def)

lemma tokenB_presented: "presented (Some tokenB) = Some tokenB"
  by (simp add: presented_def tokenB_def generateRefreshToken_def jwt_sign_def)

lemma alice2_without_tokenA:
  "save (alice2\<lparr>refreshTokens := filter (\<lambda>rt. token rt \<noteq> tokenA) (refreshTokens alice2)\<rparr>)
      [alice2]
     = [alice2\<lparr>refreshTokens := [\<lparr>token = tokenOld\<rparr>]\<rparr>]"
  by (simp add: alice2_def alice_def tokenA_def tokenOld_def generateRefreshToken_inject)

theorem logout_never_fails_witness:
  "snd (logout 1 (Some tokenA) [alice2]) = [alice2\<lparr>refreshTokens := [\<lparr>token = tokenOld\<rparr>]\<rparr>]
   \<and> snd (logout 1 (Some tokenB) [alice2]) = [alice2]
   \<and> snd (logout 1 None [alice2]) = [alice2]
   \<and> snd (logout 1 (Some (Malformed [])) [alice2]) = [alice2]
   \<and> snd (logout 9 (Some tokenA) [alice]) = [alice]"
proof (intro conjI)
  from logout_never_fails [where i = 1 and t = "Some tokenA" and d = "[alice2]",
      THEN conjunct2, THEN conjunct2, THEN conjunct2, THEN conjunct2, THEN conjunct1,
      rule_format, OF conjI [OF findById_alice2 tokenA_presented], THEN conjunct1]
  show "snd (logout 1 (Some tokenA) [alice2])
      = [alice2\<lparr>refreshTokens := [\<lparr>token = tokenOld\<rparr>]\<rparr>]"
    by (simp only: alice2_without_tokenA)
next
  from logout_never_fails [where i = 1 and t = "Some tokenB" and d = "[alice2]",
      THEN conjunct2, THEN conjunct2, THEN conjunct2, THEN conjunct2, THEN conjunct1,
      rule_format, OF conjI [OF findById_alice2 tokenB_presented],
      THEN conjunct2, THEN conjunct2, THEN mp, OF tokenB_not_held]
  show "snd (logout 1 (Some tokenB) [alice2]) = [alice2]" .
next
  have "presented None = None" by (simp add: presented_def)
  then show "snd (logout 1 None [alice2]) = [alice2]"
    by (intro logout_never_fails [THEN conjunct2, THEN conjunct2, THEN conjunct2,
          THEN conjunct1, THEN mp] disjI2)
next
  have "presented (Some (Malformed [])) = None" by (simp add: presented_def)
  then show "snd (logout 1 (Some (Malformed [])) [alice2]) = [alice2]"
    by (intro logout_never_fails [THEN conjunct2, THEN conjunct2, THEN conjunct2,
          THEN conjunct1, THEN mp] disjI2)
next
  show "snd (logout 9 (Some tokenA) [alice]) = [alice]"
    by (intro logout_never_fails [THEN conjunct2, THEN conjunct2, THEN conjunct2,
          THEN conjunct1, THEN mp] disjI1 findById_missing)
qed

section \<open>Profile update\<close>

lemma keys_obj_set: "fst ` set (obj_set k v r) \<subseteq> insert k (fst ` set r)"
proof (induction r)
  case Nil
  then show ?case by simp
next
  case (Cons kv r)
  obtain k' v' where kv: "kv = (k', v')" by (cases kv)
  show ?case
  proof (cases "k' = k")
    case True
    with kv show ?thesis by simp
  next
    case False
    with kv Cons.IH show ?thesis by auto
  qed
qed

lemma keys_copy_if_allowed:
  assumes "fst ` set acc \<subseteq> set allowedUpdates"
  shows "fst ` set (copy_if_allowed updateData k acc) \<subseteq> set allowedUpdates"
proof (cases "k \<in> set allowedUpdates")
  case False
  with assms show ?thesis by (simp add: copy_if_allowed_def)
next
  case True
  show ?thesis
  proof (cases "map_of updateData k")
    case None
    with assms show ?thesis by (simp add: copy_if_allowed_def)
  next
    case (Some v)
    have "fst ` set (obj_set k v acc) \<subseteq> insert k (fst ` set acc)"
      by (rule keys_obj_set)
    also have "\<dots> \<subseteq> set allowedUpdates"
      using True assms by blast
    finally show ?thesis
      using True Some by (simp add: copy_if_allowed_def)
  qed
qed

lemma keys_filter_fold:
  "fst ` set acc \<subseteq> set allowedUpdates \<Longrightarrow>
   fst ` set (fold (copy_if_allowed updateData) ks acc) \<subseteq> set allowedUpdates"
proof (induction ks arbitrary: acc)
  case Nil
  then show ?case by simp
next
  case (Cons k ks)
  from Cons.IH [OF keys_copy_if_allowed [OF Cons.prems]] show ?case by simp
qed

lemma keys_filter_updates: "fst ` set (filter_updates updateData) \<subseteq> set allowedUpdates"
  unfolding filter_updates_def by (rule keys_filter_fold) simp

lemma protected_firstName: "protected (setPath ''firstName'' v u) = protected u"
  by (simp add: setPath_def protected_def)

lemma protected_lastName: "protected (setPath ''lastName'' v u) = protected u"
  by (simp add: setPath_def protected_def)

lemma protected_bio: "protected (setPath ''bio'' v u) = protected u"
  by (simp add: setPath_def protected_def)

lemma protected_avatar: "protected (setPath ''avatar'' v u) = protected u"
  by (simp add: setPath_def protected_def)

lemma protected_setPath:
  "k \<in> set allowedUpdates \<Longrightarrow> protected (setPath k v u) = protected u"
  using protected_firstName protected_lastName protected_bio protected_avatar
  by (auto simp: allowedUpdates_def)

lemma protected_fold_setPath:
  "fst ` set updates \<subseteq> set allowedUpdates \<Longrightarrow>
   protected (fold (\<lambda>(k, v). setPath k v) updates u) = protected u"
proof (induction updates arbitrary: u)
  case Nil
  then show ?case by simp
next
  case (Cons kv updates)
  obtain k v where kv: "kv = (k, v)" by (cases kv)
  from Cons.prems kv have k: "k \<in> set allowedUpdates"
    and rest: "fst ` set updates \<subseteq> set allowedUpdates" by auto
  show ?case
    using Cons.IH [OF rest, of "setPath k v u"] k kv by (simp add: protected_setPath)
qed

lemma protected_fields:
  "protected u' = protected u \<Longrightarrow>
   u_id u' = u_id u \<and> username u' = username u \<and> email u' = email u
   \<and> password u' = password u \<and> role u' = role u \<and> isActive u' = isActive u
   \<and> emailVerified u' = emailVerified u \<and> lastLogin u' = lastLogin u
   \<and> refreshTokens u' = refreshTokens u"
  by (cases u, cases u') (simp add: protected_def)

lemma updateProfile_missing:
  "findById i d = None \<Longrightarrow>
   updateProfile i updateData d = (Inl (NotFoundError ''User not found''), d)"
  by (simp add: updateProfile_def findByIdAndUpdate_def)

lemma updateProfile_found:
  "findById i d = Some u \<Longrightarrow>
   updateProfile i updateData d =
     (Inr (fold (\<lambda>(k, v). setPath k v) (filter_updates updateData) u),
      save (fold (\<lambda>(k, v). setPath k v) (filter_updates updateData) u) d)"
  by (simp add: updateProfile_def findByIdAndUpdate_def Let_def)

text \<open>
  C10. Whatever keys the update data carries, \<^verbatim>\<open>updateProfile\<close> changes at most
  \<^verbatim>\<open>firstName\<close>, \<^verbatim>\<open>lastName\<close>, \<^verbatim>\<open>bio\<close> and \<^verbatim>\<open>avatar\<close> of the user it finds:
  the updated document agrees with the old one on every other field, among them the
  role, the email, the username, the stored password, the active flag and the refresh
  tokens. No other user is changed, and with a missing user nothing is.
\<close>

theorem updateProfile_frame:
  "(findById i d = None \<longrightarrow>
      updateProfile i updateData d = (Inl (NotFoundError ''User not found''), d))
   \<and> (\<forall>u. findById i d = Some u \<longrightarrow>
         (\<exists>u'. updateProfile i updateData d = (Inr u', save u' d)
            \<and> findById i (save u' d) = Some u'
            \<and> protected u' = protected u
            \<and> u_id u' = u_id u \<and> username u' = username u \<and> email u' = email u
            \<and> password u' = password u \<and> role u' = role u \<and> isActive u' = isActive u
            \<and> emailVerified u' = emailVerified u \<and> lastLogin u' = lastLogin u
            \<and> refreshTokens u' = refreshTokens u))
   \<and> (\<forall>j. j \<noteq> i \<longrightarrow> findById j (snd (updateProfile i updateData d)) = findById j d)"
proof (intro conjI allI impI)
  assume "findById i d = None"
  then show "updateProfile i updateData d = (Inl (NotFoundError ''User not found''), d)"
    by (rule updateProfile_missing)
next
  fix u assume u: "findById i d = Some u"
  let ?u' = "fold (\<lambda>(k, v). setPath k v) (filter_updates updateData) u"
  have p: "protected ?u' = protected u"
    by (rule protected_fold_setPath [OF keys_filter_updates])
  note f = protected_fields [OF p]
  have "findById i (save ?u' d) = Some ?u'"
    using u f by (simp add: findById_save_found)
  with updateProfile_found [OF u, of updateData] p f
  show "\<exists>u'. updateProfile i updateData d = (Inr u', save u' d)
            \<and> findById i (save u' d) = Some u'
            \<and> protected u' = protected u
            \<and> u_id u' = u_id u \<and> username u' = username u \<and> email u' = email u
            \<and> password u' = password u \<and> role u' = role u \<and> isActive u' = isActive u
            \<and> emailVerified u' = emailVerified u \<and> lastLogin u' = lastLogin u
            \<and> refreshTokens u' = refreshTokens u"
    by (intro exI [of _ ?u']) simp
next
  fix j assume j: "j \<noteq> i"
  show "findById j (snd (updateProfile i updateData d)) = findById j d"
  proof (cases "findById i d")
    case None
    then show ?thesis by (simp add: updateProfile_missing)
  next
    case (Some u)
    let ?u' = "fold (\<lambda>(k, v). setPath k v) (filter_updates updateData) u"
    have "u_id ?u' = i"
      using protected_fields [OF protected_fold_setPath [OF keys_filter_updates, of updateData u]]
        findById_Some_id [OF Some] by simp
    with j show ?thesis
      by (simp add: updateProfile_found [OF Some] findById_save)
  qed
qed

text \<open>
  At the sample population: an update of \<open>alice\<close> that also carries a role, a
  password, an email and an active flag changes her first name and her bio, and
  nothing else.
\<close>

theorem updateProfile_frame_witness:
  "updateProfile 1 [(''firstName'', ''Alicia''), (''role'', ''admin''), (''password'', ''x''),
        (''email'', ''eve@x.com''), (''isActive'', ''false''), (''bio'', ''Hello'')] [alice]
     = (Inr (alice\<lparr>firstName := ''Alicia'', bio := Some ''Hello''\<rparr>),
        [alice\<lparr>firstName := ''Alicia'', bio := Some ''Hello''\<rparr>])
   \<and> role (projr (fst (updateProfile 1 [(''firstName'', ''Alicia''), (''role'', ''admin''),
        (''password'', ''x''), (''email'', ''eve@x.com''), (''isActive'', ''false''),
        (''bio'', ''Hello'')] [alice]))) = role alice"
proof -
  let ?data = "[(''firstName'', ''Alicia''), (''role'', ''admin''), (''password'', ''x''),
        (''email'', ''eve@x.com''), (''isActive'', ''false''), (''bio'', ''Hello'')]"
  have filtered: "filter_updates ?data = [(''firstName'', ''Alicia''), (''bio'', ''Hello'')]"
    by (simp add: filter_updates_def copy_if_allowed_def allowedUpdates_def)
  have applied: "fold (\<lambda>(k, v). setPath k v) [(''firstName'', ''Alicia''), (''bio'', ''Hello'')] alice
      = alice\<lparr>firstName := ''Alicia'', bio := Some ''Hello''\<rparr>"
    by (simp add: setPath_def)
  from updateProfile_frame [where i = 1 and d = "[alice]" and updateData = ?data,
      THEN conjunct2, THEN conjunct1, rule_format, OF findById_alice]
  obtain u' where up: "updateProfile 1 ?data [alice] = (Inr u', save u' [alice])"
    and same: "role u' = role alice" and i: "u_id u' = u_id alice"
    by blast
  have val: "updateProfile 1 ?data [alice]
      = (Inr (alice\<lparr>firstName := ''Alicia'', bio := Some ''Hello''\<rparr>),
         [alice\<lparr>firstName := ''Alicia'', bio := Some ''Hello''\<rparr>])"
    using updateProfile_found [OF findById_alice, of ?data]
    unfolding filtered applied by (simp add: save_alice u_id_alice)
  from up same val show ?thesis by simp
qed

end
